theory Spec2Isabelle
  imports Main "HOL-Library.AList" "HOL-Library.Product_Lexorder" "HOL-Library.Multiset"
begin

section \<open>Values, dates and text\<close>

text \<open>
  The program is \<^verbatim>\<open>task_manager.py\<close>. A Python \<^verbatim>\<open>str\<close> is modelled as a HOL
  \<open>string\<close> holding its UTF-8 bytes (the encoding both file operations use). On text
  whose characters beyond ASCII are neither white space nor decimal digits, Python's
  \<^verbatim>\<open>split\<close>, \<^verbatim>\<open>join\<close>, \<^verbatim>\<open>strip\<close>, \<^verbatim>\<open>==\<close> and the \<^verbatim>\<open>\d\<close> of
  \<^verbatim>\<open>strptime\<close> act on the bytes as they act on the code points; that is the text this
  development covers.
\<close>

datatype error = ValueError | TypeError | IndexError | FileNotFoundError | AttributeError

record date =
  year :: nat
  month :: nat
  day :: nat

text \<open>The values an attribute of a task holds in this program.\<close>

datatype pyval = PyNone | PyBool bool | PyStr string | PyDate date

text \<open>Python's truth value of an object: \<^verbatim>\<open>if x\<close>, \<^verbatim>\<open>x or y\<close>, \<^verbatim>\<open>not x\<close>.\<close>

fun truthy :: "pyval \<Rightarrow> bool" where
  "truthy PyNone = False"
| "truthy (PyBool b) = b"
| "truthy (PyStr s) = (s \<noteq> [])"
| "truthy (PyDate d) = True"

definition py_or :: "pyval \<Rightarrow> pyval \<Rightarrow> pyval" where
  "py_or a b = (if truthy a then a else b)"

subsection \<open>Calendar dates\<close>

text \<open>\<^verbatim>\<open>datetime.date(y, m, d)\<close> exists exactly for these triples.\<close>

definition is_leap :: "nat \<Rightarrow> bool" where
  "is_leap y = (y mod 4 = 0 \<and> (0 < y mod 100 \<or> y mod 400 = 0))"

definition days_in_month :: "nat \<Rightarrow> nat \<Rightarrow> nat" where
  "days_in_month y m =
     (if m = 2 then (if is_leap y then 29 else 28)
      else if m = 4 \<or> m = 6 \<or> m = 9 \<or> m = 11 then 30 else 31)"

definition valid_date :: "date \<Rightarrow> bool" where
  "valid_date d =
     (1 \<le> year d \<and> year d \<le> 9999 \<and> 1 \<le> month d \<and> month d \<le> 12 \<and>
      1 \<le> day d \<and> day d \<le> days_in_month (year d) (month d))"

text \<open>\<^verbatim>\<open>datetime.max.date()\<close>\<close>

definition date_max :: date where
  "date_max = \<lparr>year = 9999, month = 12, day = 31\<rparr>"

text \<open>Dates compare as the triples (year, month, day).\<close>

definition date_key :: "date \<Rightarrow> nat \<times> nat \<times> nat" where
  "date_key d = (year d, month d, day d)"

subsection \<open>Decimal digits\<close>

definition digit_char :: "nat \<Rightarrow> char" where
  "digit_char n = ''0123456789'' ! (n mod 10)"

definition digit_val :: "char \<Rightarrow> nat option" where
  "digit_val c =
     map_of [(CHR ''0'', 0), (CHR ''1'', 1), (CHR ''2'', 2), (CHR ''3'', 3), (CHR ''4'', 4),
             (CHR ''5'', 5), (CHR ''6'', 6), (CHR ''7'', 7), (CHR ''8'', 8), (CHR ''9'', 9)] c"

definition is_digit :: "char \<Rightarrow> bool" where
  "is_digit c = (digit_val c \<noteq> None)"

text \<open>\<^verbatim>\<open>int(s)\<close> on a string of decimal digits.\<close>

definition int_of_digits :: "string \<Rightarrow> nat" where
  "int_of_digits s = foldl (\<lambda>n c. 10 * n + (case digit_val c of Some v \<Rightarrow> v | None \<Rightarrow> 0)) 0 s"

text \<open>\<^verbatim>\<open>"%d" % n\<close>, and \<^verbatim>\<open>"%0wd" % n\<close> by padding with zeros on the left.\<close>

fun show_nat :: "nat \<Rightarrow> string" where
  "show_nat n = (if n < 10 then [digit_char n] else show_nat (n div 10) @ [digit_char (n mod 10)])"

definition zfill :: "nat \<Rightarrow> string \<Rightarrow> string" where
  "zfill w s = replicate (w - length s) (CHR ''0'') @ s"

text \<open>\<^verbatim>\<open>str(d)\<close> of a date is \<^verbatim>\<open>d.isoformat()\<close>: \<^verbatim>\<open>"%04d-%02d-%02d"\<close>.\<close>

definition isoformat :: "date \<Rightarrow> string" where
  "isoformat d =
     zfill 4 (show_nat (year d)) @ ''-'' @ zfill 2 (show_nat (month d)) @ ''-'' @
     zfill 2 (show_nat (day d))"

text \<open>\<^verbatim>\<open>str(v)\<close>, which the f-strings of the program apply to a value.\<close>

fun py_str :: "pyval \<Rightarrow> string" where
  "py_str PyNone = ''None''"
| "py_str (PyBool b) = (if b then ''True'' else ''False'')"
| "py_str (PyStr s) = s"
| "py_str (PyDate d) = isoformat d"

subsection \<open>\<^verbatim>\<open>datetime.strptime(s, "%Y-%m-%d").date()\<close>\<close>

text \<open>
  The library turns the format into the regular expression
  \<^verbatim>\<open>(?P<Y>\d\d\d\d)-(?P<m>1[0-2]|0[1-9]|[1-9])-(?P<d>3[0-1]|[1-2]\d|0[1-9]|[1-9]| [1-9])\<close>,
  matches it at the start of the string, and raises \<^verbatim>\<open>ValueError\<close> when it does not
  match, when text remains after the match, or when the three numbers are not a date.
  An alternative is tried in the order written, and the next one only when the rest of
  the expression fails after it. \<open>None\<close> stands for the \<^verbatim>\<open>ValueError\<close>.
\<close>

text \<open>The alternatives of the month group: each the digits it takes and the rest.\<close>

definition month_alts :: "string \<Rightarrow> (string \<times> string) list" where
  "month_alts s =
     (case s of
        a # b # r \<Rightarrow>
          (if a = CHR ''1'' \<and> b \<in> set ''012'' then [([a, b], r)] else []) @
          (if a = CHR ''0'' \<and> b \<in> set ''123456789'' then [([a, b], r)] else []) @
          (if a \<in> set ''123456789'' then [([a], b # r)] else [])
      | [a] \<Rightarrow> (if a \<in> set ''123456789'' then [([a], [])] else [])
      | [] \<Rightarrow> [])"

text \<open>The day group is last in the expression: its first matching alternative stands.\<close>

definition day_alts :: "string \<Rightarrow> (string \<times> string) list" where
  "day_alts s =
     (case s of
        a # b # r \<Rightarrow>
          (if a = CHR ''3'' \<and> b \<in> set ''01'' then [([a, b], r)] else []) @
          (if a \<in> set ''12'' \<and> is_digit b then [([a, b], r)] else []) @
          (if a = CHR ''0'' \<and> b \<in> set ''123456789'' then [([a, b], r)] else []) @
          (if a \<in> set ''123456789'' then [([a], b # r)] else []) @
          (if a = CHR '' '' \<and> b \<in> set ''123456789'' then [([b], r)] else [])
      | [a] \<Rightarrow> (if a \<in> set ''123456789'' then [([a], [])] else [])
      | [] \<Rightarrow> [])"

text \<open>The first way through the alternatives for which the whole expression matches.\<close>

fun first_some :: "('a \<Rightarrow> 'b option) \<Rightarrow> 'a list \<Rightarrow> 'b option" where
  "first_some f [] = None"
| "first_some f (x # xs) = (case f x of Some y \<Rightarrow> Some y | None \<Rightarrow> first_some f xs)"

definition match_day :: "string \<Rightarrow> (string \<times> string) option" where
  "match_day s = (case day_alts s of [] \<Rightarrow> None | x # _ \<Rightarrow> Some x)"

definition match_month_day :: "string \<Rightarrow> (string \<times> string \<times> string) option" where
  "match_month_day s =
     first_some
       (\<lambda>(m, r). case r of
           c # r' \<Rightarrow>
             (if c = CHR ''-'' then
                (case match_day r' of Some (d, rest) \<Rightarrow> Some (m, d, rest) | None \<Rightarrow> None)
              else None)
         | [] \<Rightarrow> None)
       (month_alts s)"

definition strptime_ymd :: "string \<Rightarrow> date option" where
  "strptime_ymd s =
     (case s of
        a # b # c # d # e # r \<Rightarrow>
          (if is_digit a \<and> is_digit b \<and> is_digit c \<and> is_digit d \<and> e = CHR ''-'' then
             (case match_month_day r of
                Some (m, dd, rest) \<Rightarrow>
                  (let dt = \<lparr>year = int_of_digits [a, b, c, d], month = int_of_digits m,
                             day = int_of_digits dd\<rparr>
                   in if rest = [] \<and> valid_date dt then Some dt else None)
              | None \<Rightarrow> None)
           else None)
      | _ \<Rightarrow> None)"

section \<open>Tasks\<close>

text \<open>
  A task is an object of one of three classes. Its \<^verbatim>\<open>__dict__\<close> starts with the four
  attributes \<^verbatim>\<open>__init__\<close> of \<^verbatim>\<open>Zadanie\<close> sets first (lines 53 to 62), in that
  order; no code of the program deletes an attribute. The record holds these four as
  fields and the rest of \<^verbatim>\<open>__dict__\<close>, in the order of attachment, as \<open>extra\<close>
  (the subclass attributes \<^verbatim>\<open>priorytet\<close> and \<^verbatim>\<open>powtarzalnosc\<close> are among them,
  as in the source, where they are plain entries of \<^verbatim>\<open>__dict__\<close>).
\<close>

datatype klasa = Zadanie | ZadaniePiorytetowe | ZadanieRegularne

record zadanie_obj =
  cls :: klasa
  tytul :: pyval
  opis :: pyval
  termin_wykonaia :: pyval
  wykonane :: pyval
  extra :: "(string \<times> pyval) list"

text \<open>
  Storing into \<^verbatim>\<open>__dict__\<close>: an attribute that exists keeps its place and takes the
  new value, a new one is added at the end.
\<close>

definition dict_set :: "zadanie_obj \<Rightarrow> string \<Rightarrow> pyval \<Rightarrow> zadanie_obj" where
  "dict_set z k v =
     (if k = ''tytul'' then z\<lparr>tytul := v\<rparr>
      else if k = ''opis'' then z\<lparr>opis := v\<rparr>
      else if k = ''termin_wykonaia'' then z\<lparr>termin_wykonaia := v\<rparr>
      else if k = ''wykonane'' then z\<lparr>wykonane := v\<rparr>
      else z\<lparr>extra := AList.update k v (extra z)\<rparr>)"

text \<open>
  \<^verbatim>\<open>setattr(z, k, v)\<close>, and \<^verbatim>\<open>z.k = v\<close>. A name that is a data descriptor of the
  class takes the assignment itself; the classes of the program inherit three from
  \<^verbatim>\<open>object\<close>, and none of them accepts a value of this program:
  \<^verbatim>\<open>__class__\<close> and \<^verbatim>\<open>__dict__\<close> raise \<^verbatim>\<open>TypeError\<close> (the value is no class,
  no dictionary), \<^verbatim>\<open>__weakref__\<close> raises \<^verbatim>\<open>AttributeError\<close> (not writable). Every
  other name is stored into \<^verbatim>\<open>__dict__\<close>; a method of the class is no data
  descriptor, so an attribute of its name is stored too and hides it.
\<close>

definition data_descriptors :: "string list" where
  "data_descriptors = [''__class__'', ''__dict__'', ''__weakref__'']"

definition setattr :: "zadanie_obj \<Rightarrow> string \<Rightarrow> pyval \<Rightarrow> error + zadanie_obj" where
  "setattr z k v =
     (if k = ''__class__'' \<or> k = ''__dict__'' then Inl TypeError
      else if k = ''__weakref__'' then Inl AttributeError
      else Inr (dict_set z k v))"

text \<open>Reading an attribute; \<open>None\<close> where Python raises \<^verbatim>\<open>AttributeError\<close>.\<close>

definition getattr :: "zadanie_obj \<Rightarrow> string \<Rightarrow> pyval option" where
  "getattr z k =
     (if k = ''tytul'' then Some (tytul z)
      else if k = ''opis'' then Some (opis z)
      else if k = ''termin_wykonaia'' then Some (termin_wykonaia z)
      else if k = ''wykonane'' then Some (wykonane z)
      else map_of (extra z) k)"

text \<open>
  \<^verbatim>\<open>for k, v in kwargs.items(): setattr(self, k, v)\<close> (lines 63-64, 206-207): the
  object as assigned so far, and the error that ended the loop.
\<close>

fun setattrs :: "zadanie_obj \<Rightarrow> (string \<times> pyval) list \<Rightarrow> error option \<times> zadanie_obj" where
  "setattrs z [] = (None, z)"
| "setattrs z ((k, v) # kwargs) =
     (case setattr z k v of
        Inl e \<Rightarrow> (Some e, z)
      | Inr z' \<Rightarrow> setattrs z' kwargs)"

text \<open>Lines 55-61: a string is parsed, a failure gives no date; anything else is stored.\<close>

definition parse_termin :: "pyval \<Rightarrow> pyval" where
  "parse_termin termin =
     (case termin of
        PyStr s \<Rightarrow> (case strptime_ymd s of Some d \<Rightarrow> PyDate d | None \<Rightarrow> PyNone)
      | _ \<Rightarrow> termin)"

text \<open>
  \<^verbatim>\<open>Zadanie.__init__(self, tytul, opis, termin, **kwargs)\<close>, lines 52-64. The first
  argument is the class of the object under construction: the subclasses run this body
  through \<^verbatim>\<open>super().__init__\<close>. When the attribute loop raises, the construction
  raises and there is no object.
\<close>

definition Zadanie_init ::
  "klasa \<Rightarrow> pyval \<Rightarrow> pyval \<Rightarrow> pyval \<Rightarrow> (string \<times> pyval) list \<Rightarrow> error + zadanie_obj" where
  "Zadanie_init c tytul' opis' termin kwargs =
     (case setattrs
             \<lparr>cls = c, tytul = tytul', opis = opis', termin_wykonaia = parse_termin termin,
              wykonane = PyBool False, extra = []\<rparr>
             kwargs of
        (None, z) \<Rightarrow> Inr z
      | (Some e, z) \<Rightarrow> Inl e)"

text \<open>Lines 96-98 and 122-124.\<close>

definition ZadaniePiorytetowe_init ::
  "pyval \<Rightarrow> pyval \<Rightarrow> pyval \<Rightarrow> pyval \<Rightarrow> (string \<times> pyval) list \<Rightarrow> error + zadanie_obj" where
  "ZadaniePiorytetowe_init tytul' opis' termin priorytet kwargs =
     (case Zadanie_init ZadaniePiorytetowe tytul' opis' termin kwargs of
        Inl e \<Rightarrow> Inl e
      | Inr z \<Rightarrow> setattr z ''priorytet'' priorytet)"

definition ZadanieRegularne_init ::
  "pyval \<Rightarrow> pyval \<Rightarrow> pyval \<Rightarrow> pyval \<Rightarrow> (string \<times> pyval) list \<Rightarrow> error + zadanie_obj" where
  "ZadanieRegularne_init tytul' opis' termin powtarzalnosc kwargs =
     (case Zadanie_init ZadanieRegularne tytul' opis' termin kwargs of
        Inl e \<Rightarrow> Inl e
      | Inr z \<Rightarrow> setattr z ''powtarzalnosc'' powtarzalnosc)"

text \<open>
  The defaults of the two subclass parameters. The first letter of the default priority
  lies beyond ASCII and is written as its two UTF-8 bytes.
\<close>

definition default_priorytet :: string where
  "default_priorytet = [char_of (0xC5 :: nat), char_of (0x9A :: nat)] @ ''redni''"

definition default_powtarzalnosc :: string where
  "default_powtarzalnosc = ''codziennie''"

text \<open>
  A call \<^verbatim>\<open>C(tytul, opis, termin, **attrs)\<close> with three positional arguments
  (lines 166-170, 249-253). Python binds a keyword that names a parameter to it, raises
  \<^verbatim>\<open>TypeError\<close> when that parameter already has its positional value
  (\<^verbatim>\<open>self\<close>, \<^verbatim>\<open>tytul\<close>, \<^verbatim>\<open>opis\<close>, \<^verbatim>\<open>termin\<close>), and collects the other
  keywords, in their order, as \<^verbatim>\<open>kwargs\<close>.
\<close>

definition positional_names :: "string list" where
  "positional_names = [''self'', ''tytul'', ''opis'', ''termin'']"

definition call_klasa ::
  "klasa \<Rightarrow> pyval \<Rightarrow> pyval \<Rightarrow> pyval \<Rightarrow> (string \<times> pyval) list \<Rightarrow> error + zadanie_obj" where
  "call_klasa c tytul' opis' termin attrs =
     (if list_ex (\<lambda>k. k \<in> set positional_names) (map fst attrs) then Inl TypeError
      else
        (case c of
           Zadanie \<Rightarrow> Zadanie_init Zadanie tytul' opis' termin attrs
         | ZadaniePiorytetowe \<Rightarrow>
             ZadaniePiorytetowe_init tytul' opis' termin
               (case map_of attrs ''priorytet'' of
                  Some p \<Rightarrow> p | None \<Rightarrow> PyStr default_priorytet)
               (filter (\<lambda>kv. fst kv \<noteq> ''priorytet'') attrs)
         | ZadanieRegularne \<Rightarrow>
             ZadanieRegularne_init tytul' opis' termin
               (case map_of attrs ''powtarzalnosc'' of
                  Some p \<Rightarrow> p | None \<Rightarrow> PyStr default_powtarzalnosc)
               (filter (\<lambda>kv. fst kv \<noteq> ''powtarzalnosc'') attrs)))"

text \<open>
  The call \<^verbatim>\<open>zad.wykonany()\<close> (line 351) of the method of lines 83-88,
  \<^verbatim>\<open>self.wykonane = not self.wykonane\<close>. An attribute \<^verbatim>\<open>wykonany\<close> of the object
  itself is found before the method, and calling its value, which is no function, raises
  \<^verbatim>\<open>TypeError\<close>.
\<close>

definition wykonany :: "zadanie_obj \<Rightarrow> error + zadanie_obj" where
  "wykonany z =
     (if ''wykonany'' \<in> fst ` set (extra z) then Inl TypeError
      else Inr (z\<lparr>wykonane := PyBool (\<not> truthy (wykonane z))\<rparr>))"

section \<open>The manager\<close>

text \<open>
  Tasks are mutable objects, and the manager's list holds references to them: the
  membership tests of the source (\<^verbatim>\<open>zadanie in self.zadania\<close>, no \<^verbatim>\<open>__eq__\<close> is
  defined) compare identities. The store is the list of all task objects made so far, a
  reference is an index into it, and a new object is added at the end. A reference the
  program holds is always an index of the store; a statement that reads the object of a
  reference it is given says so (\<open>r < length h\<close>).
\<close>

type_synonym ref = nat

type_synonym store = "zadanie_obj list"

record manager_zadan =
  save_dir :: string
  zadania :: "ref list"

text \<open>
  \<^verbatim>\<open>ManagerZadan.__init__\<close>, lines 148-151: \<^verbatim>\<open>save_dir or\<close> the directory of the
  script, which is the first argument here.
\<close>

definition ManagerZadan_init :: "string \<Rightarrow> string option \<Rightarrow> manager_zadan" where
  "ManagerZadan_init script_dir dir =
     \<lparr>save_dir = (case dir of None \<Rightarrow> script_dir
                     | Some d \<Rightarrow> if d = [] then script_dir else d),
      zadania = []\<rparr>"

text \<open>
  \<^verbatim>\<open>dodaj_zadanie\<close>, lines 154-173. \<open>typ\<close> chooses the class; a given object is
  appended as it is. The decorator \<^verbatim>\<open>czas_wykonania\<close> of the manager's methods prints
  a duration and returns the method's result; it is left out.
\<close>

definition klasa_of_typ :: "string \<Rightarrow> klasa" where
  "klasa_of_typ typ =
     (if typ = ''priorytet'' then ZadaniePiorytetowe
      else if typ = ''regular'' then ZadanieRegularne else Zadanie)"

definition dodaj_zadanie ::
  "manager_zadan \<Rightarrow> ref option \<Rightarrow> pyval \<Rightarrow> pyval \<Rightarrow> pyval \<Rightarrow> string \<Rightarrow>
   (string \<times> pyval) list \<Rightarrow> store \<Rightarrow> error + (manager_zadan \<times> store)" where
  "dodaj_zadanie m zadanie tytul' opis' termin typ kwargs h =
     (case zadanie of
        Some r \<Rightarrow> Inr (m\<lparr>zadania := zadania m @ [r]\<rparr>, h)
      | None \<Rightarrow>
          (case call_klasa (klasa_of_typ typ) tytul' (py_or opis' (PyStr [])) termin kwargs of
             Inl e \<Rightarrow> Inl e
           | Inr z \<Rightarrow> Inr (m\<lparr>zadania := zadania m @ [length h]\<rparr>, h @ [z])))"

text \<open>
  \<^verbatim>\<open>zadanie or next((z for z in self.zadania if z.tytul == tytul), None)\<close>,
  lines 180 and 189: a given object is the target, otherwise the first task of the list
  with the title.
\<close>

definition target_of :: "store \<Rightarrow> manager_zadan \<Rightarrow> ref option \<Rightarrow> pyval \<Rightarrow> ref option" where
  "target_of h m zadanie tytul' =
     (case zadanie of
        Some r \<Rightarrow> Some r
      | None \<Rightarrow> List.find (\<lambda>r. tytul (h ! r) = tytul') (zadania m))"

text \<open>\<^verbatim>\<open>usun_zadanie\<close>, lines 176-182.\<close>

definition usun_zadanie ::
  "manager_zadan \<Rightarrow> ref option \<Rightarrow> pyval \<Rightarrow> store \<Rightarrow> manager_zadan" where
  "usun_zadanie m zadanie tytul' h =
     (case target_of h m zadanie tytul' of
        Some r \<Rightarrow> (if r \<in> set (zadania m) then m\<lparr>zadania := remove1 r (zadania m)\<rparr> else m)
      | None \<Rightarrow> m)"

text \<open>\<^verbatim>\<open>oznacz_jako_wykonane\<close>, lines 185-191.\<close>

definition oznacz_jako_wykonane ::
  "manager_zadan \<Rightarrow> ref option \<Rightarrow> pyval \<Rightarrow> store \<Rightarrow> store" where
  "oznacz_jako_wykonane m zadanie tytul' h =
     (case target_of h m zadanie tytul' of
        Some r \<Rightarrow> h[r := (h ! r)\<lparr>wykonane := PyBool True\<rparr>]
      | None \<Rightarrow> h)"

text \<open>
  \<^verbatim>\<open>edytuj_zadanie\<close>, lines 194-207. When an assignment of the attribute loop raises,
  the method raises, and the task keeps what was assigned before.
\<close>

definition edytuj_pola ::
  "zadanie_obj \<Rightarrow> pyval \<Rightarrow> pyval \<Rightarrow> pyval \<Rightarrow> (string \<times> pyval) list \<Rightarrow>
   error option \<times> zadanie_obj" where
  "edytuj_pola z nowy_tytul nowy_opis nowy_termin kwargs =
     (let z1 = (if truthy nowy_tytul then z\<lparr>tytul := nowy_tytul\<rparr> else z);
          z2 = (if truthy nowy_opis then z1\<lparr>opis := nowy_opis\<rparr> else z1);
          z3 = (if truthy nowy_termin then z2\<lparr>termin_wykonaia := nowy_termin\<rparr> else z2)
      in setattrs z3 kwargs)"

definition edytuj_zadanie ::
  "manager_zadan \<Rightarrow> ref \<Rightarrow> pyval \<Rightarrow> pyval \<Rightarrow> pyval \<Rightarrow> (string \<times> pyval) list \<Rightarrow>
   store \<Rightarrow> error option \<times> store" where
  "edytuj_zadanie m zadanie nowy_tytul nowy_opis nowy_termin kwargs h =
     (if zadanie \<in> set (zadania m)
      then (case edytuj_pola (h ! zadanie) nowy_tytul nowy_opis nowy_termin kwargs of
              (e, z) \<Rightarrow> (e, h[zadanie := z]))
      else (None, h))"

section \<open>Text operations of the codec\<close>

text \<open>\<^verbatim>\<open>sep.join(parts)\<close>\<close>

fun join_with :: "string \<Rightarrow> string list \<Rightarrow> string" where
  "join_with sep [] = []"
| "join_with sep [p] = p"
| "join_with sep (p # q # ps) = p @ sep @ join_with sep (q # ps)"

text \<open>\<^verbatim>\<open>s.split(c)\<close> for a separator of one character: never an empty list.\<close>

fun split_on :: "char \<Rightarrow> string \<Rightarrow> string list" where
  "split_on c [] = [[]]"
| "split_on c (x # xs) =
     (if x = c then [] # split_on c xs
      else (case split_on c xs of w # ws \<Rightarrow> (x # w) # ws | [] \<Rightarrow> [[x]]))"

text \<open>
  \<^verbatim>\<open>k, v = pair.split("=", 1)\<close>, line 245: the text before and after the first
  \<^verbatim>\<open>=\<close>; without one the unpacking raises \<^verbatim>\<open>ValueError\<close>.
\<close>

definition split_pair :: "string \<Rightarrow> error + (string \<times> string)" where
  "split_pair pair =
     (if CHR ''='' \<in> set pair
      then Inr (takeWhile (\<lambda>c. c \<noteq> CHR ''='') pair, tl (dropWhile (\<lambda>c. c \<noteq> CHR ''='') pair))
      else Inl ValueError)"

text \<open>
  \<^verbatim>\<open>s.strip()\<close>: the ASCII white space of \<^verbatim>\<open>str.isspace\<close> is the characters 9 to
  13, 28 to 31 and the space.
\<close>

definition is_space :: "char \<Rightarrow> bool" where
  "is_space c = (c \<in> set [CHR 0x09, CHR 0x0A, CHR 0x0B, CHR 0x0C, CHR 0x0D,
                            CHR 0x1C, CHR 0x1D, CHR 0x1E, CHR 0x1F, CHR 0x20])"

definition strip :: "string \<Rightarrow> string" where
  "strip s = rev (dropWhile is_space (rev (dropWhile is_space s)))"

text \<open>
  Reading a file opened in text mode: \<^verbatim>\<open>\r\n\<close> and a lone \<^verbatim>\<open>\r\<close> become
  \<^verbatim>\<open>\n\<close>, and \<^verbatim>\<open>for line in f\<close> gives the pieces that end with \<^verbatim>\<open>\n\<close>, and
  a last piece without one when the text does not end with it.
\<close>

fun universal_newlines :: "string \<Rightarrow> string" where
  "universal_newlines [] = []"
| "universal_newlines [c] = (if c = CHR 0x0D then [CHR 0x0A] else [c])"
| "universal_newlines (c # d # r) =
     (if c = CHR 0x0D then
        (if d = CHR 0x0A then CHR 0x0A # universal_newlines r
         else CHR 0x0A # universal_newlines (d # r))
      else c # universal_newlines (d # r))"

fun file_lines :: "string \<Rightarrow> string list" where
  "file_lines [] = []"
| "file_lines (x # xs) =
     (if x = CHR 0x0A then [x] # file_lines xs
      else (case file_lines xs of l # ls \<Rightarrow> (x # l) # ls | [] \<Rightarrow> [[x]]))"

section \<open>Paths\<close>

text \<open>
  \<^verbatim>\<open>os.path.join(a, b)\<close> and \<^verbatim>\<open>os.path.commonpath([a, b])\<close> of \<^verbatim>\<open>posixpath\<close>.
  \<^verbatim>\<open>commonpath\<close> raises \<^verbatim>\<open>ValueError\<close> for one absolute and one relative path;
  otherwise it splits both at \<^verbatim>\<open>/\<close>, drops the empty and the \<^verbatim>\<open>.\<close> components,
  and joins the longest common prefix of the two component lists (the library takes it
  between the smaller and the larger list, which is the same prefix). A component
  \<^verbatim>\<open>..\<close> is a component like any other there.
\<close>

definition path_join :: "string \<Rightarrow> string \<Rightarrow> string" where
  "path_join a b =
     (if take 1 b = ''/'' then b
      else if a = [] \<or> last a = CHR ''/'' then a @ b
      else a @ ''/'' @ b)"

fun common_prefix :: "'a list \<Rightarrow> 'a list \<Rightarrow> 'a list" where
  "common_prefix (x # xs) (y # ys) = (if x = y then x # common_prefix xs ys else [])"
| "common_prefix xs ys = []"

definition path_components :: "string \<Rightarrow> string list" where
  "path_components p = filter (\<lambda>c. c \<noteq> [] \<and> c \<noteq> ''.'') (split_on (CHR ''/'') p)"

definition commonpath :: "string \<Rightarrow> string \<Rightarrow> error + string" where
  "commonpath p q =
     (if (take 1 p = ''/'') \<noteq> (take 1 q = ''/'') then Inl ValueError
      else Inr ((if take 1 p = ''/'' then ''/'' else []) @
                join_with ''/'' (common_prefix (path_components p) (path_components q))))"

text \<open>
  Lines 216-218 and 235-237, the same in both methods: the path to open, or the
  \<^verbatim>\<open>ValueError\<close> of the check (or of \<^verbatim>\<open>commonpath\<close> itself).
\<close>

definition sprawdz_sciezke :: "manager_zadan \<Rightarrow> string \<Rightarrow> error + string" where
  "sprawdz_sciezke m nazwa_pliku =
     (let full_path = path_join (save_dir m) nazwa_pliku
      in case commonpath (save_dir m) full_path of
           Inl e \<Rightarrow> Inl e
         | Inr c \<Rightarrow> (if c \<noteq> save_dir m then Inl ValueError else Inr full_path))"

text \<open>
  Where a path leads once the \<^verbatim>\<open>..\<close> components are followed: \<^verbatim>\<open>os.path.normpath\<close>
  of \<^verbatim>\<open>posixpath\<close> for an absolute path that starts with one \<^verbatim>\<open>/\<close>. The program
  does not call it; it states which file an opened path names.
\<close>

fun norm_components :: "string list \<Rightarrow> string list \<Rightarrow> string list" where
  "norm_components acc [] = acc"
| "norm_components acc (c # cs) =
     (if c = [] \<or> c = ''.'' then norm_components acc cs
      else if c = ''..'' then norm_components (butlast acc) cs
      else norm_components (acc @ [c]) cs)"

definition normpath_abs :: "string \<Rightarrow> string" where
  "normpath_abs p = ''/'' @ join_with ''/'' (norm_components [] (split_on (CHR ''/'') p))"

section \<open>Saving and loading\<close>

text \<open>
  The files are a map from the path given to \<^verbatim>\<open>open\<close> to the text of the file.
  Opening for writing makes or empties the file and does not fail; opening a path that
  has no file for reading raises \<^verbatim>\<open>FileNotFoundError\<close>. A written \<^verbatim>\<open>\n\<close> is
  stored as it is (POSIX). A method that raises has still done what it did before: the
  result gives the error, if any, beside the state reached.
\<close>

type_synonym files = "string \<Rightarrow> string option"

text \<open>\<^verbatim>\<open>type(z).__name__\<close>\<close>

fun klasa_name :: "klasa \<Rightarrow> string" where
  "klasa_name Zadanie = ''Zadanie''"
| "klasa_name ZadaniePiorytetowe = ''ZadaniePiorytetowe''"
| "klasa_name ZadanieRegularne = ''ZadanieRegularne''"

text \<open>
  Lines 221-226, the text written for one task. \<^verbatim>\<open>";".join(parts)\<close> raises
  \<^verbatim>\<open>TypeError\<close> when the title or the description is not a string.
\<close>

definition linia_zadania :: "zadanie_obj \<Rightarrow> error + string" where
  "linia_zadania z =
     (case (tytul z, opis z) of
        (PyStr t, PyStr d) \<Rightarrow>
          Inr (join_with '';''
                 ([klasa_name (cls z), t, d, py_str (termin_wykonaia z)] @
                  map (\<lambda>(k, v). k @ ''='' @ py_str v) (extra z) @
                  [''wykonane='' @ py_str (wykonane z)])
               @ [CHR 0x0A])
      | _ \<Rightarrow> Inl TypeError)"

text \<open>The loop of line 220: the text written so far, and the error that ended it.\<close>

fun zapisz_zadania :: "zadanie_obj list \<Rightarrow> string \<Rightarrow> error option \<times> string" where
  "zapisz_zadania [] out = (None, out)"
| "zapisz_zadania (z # zs) out =
     (case linia_zadania z of
        Inl e \<Rightarrow> (Some e, out)
      | Inr l \<Rightarrow> zapisz_zadania zs (out @ l))"

text \<open>\<^verbatim>\<open>zapisz_do_pliku\<close>, lines 210-226.\<close>

definition zapisz_do_pliku ::
  "manager_zadan \<Rightarrow> string \<Rightarrow> store \<Rightarrow> files \<Rightarrow> error option \<times> files" where
  "zapisz_do_pliku m nazwa_pliku h fs =
     (case sprawdz_sciezke m nazwa_pliku of
        Inl e \<Rightarrow> (Some e, fs)
      | Inr full_path \<Rightarrow>
          (case zapisz_zadania (map (\<lambda>r. h ! r) (zadania m)) [] of
             (e, out) \<Rightarrow> (e, fs(full_path \<mapsto> out))))"

text \<open>Line 246: the texts \<^verbatim>\<open>True\<close> and \<^verbatim>\<open>False\<close> become booleans.\<close>

definition attr_value :: "string \<Rightarrow> pyval" where
  "attr_value v = (if v = ''True'' \<or> v = ''False'' then PyBool (v = ''True'') else PyStr v)"

text \<open>Lines 243-246: the dictionary \<^verbatim>\<open>attrs\<close>, or the error of the first bad pair.\<close>

fun attrs_of :: "string list \<Rightarrow> (string \<times> pyval) list \<Rightarrow> error + (string \<times> pyval) list" where
  "attrs_of [] attrs = Inr attrs"
| "attrs_of (pair # pairs) attrs =
     (case split_pair pair of
        Inl e \<Rightarrow> Inl e
      | Inr (k, v) \<Rightarrow> attrs_of pairs (AList.update k (attr_value v) attrs))"

definition klasa_of_name :: "string \<Rightarrow> klasa" where
  "klasa_of_name typ =
     (if typ = ''ZadaniePiorytetowe'' then ZadaniePiorytetowe
      else if typ = ''ZadanieRegularne'' then ZadanieRegularne else Zadanie)"

text \<open>
  Lines 240-255, the task one line gives: \<^verbatim>\<open>IndexError\<close> under four fields,
  \<^verbatim>\<open>ValueError\<close> for a pair without \<^verbatim>\<open>=\<close> or a text that is not a date,
  \<^verbatim>\<open>TypeError\<close> from the call of the class.
\<close>

definition wczytaj_linie :: "string \<Rightarrow> error + zadanie_obj" where
  "wczytaj_linie line =
     (case split_on (CHR '';'') (strip line) of
        typ # tytul' # opis' # termin_str # attr_pairs \<Rightarrow>
          (case attrs_of attr_pairs [] of
             Inl e \<Rightarrow> Inl e
           | Inr attrs \<Rightarrow>
               (case strptime_ymd termin_str of
                  None \<Rightarrow> Inl ValueError
                | Some date_val \<Rightarrow>
                    (case call_klasa (klasa_of_name typ) (PyStr tytul') (PyStr opis')
                            (PyDate date_val) attrs of
                       Inl e \<Rightarrow> Inl e
                     | Inr zad \<Rightarrow>
                         Inr (if (case map_of attrs ''wykonane'' of
                                    Some v \<Rightarrow> truthy v | None \<Rightarrow> False)
                              then zad\<lparr>wykonane := PyBool True\<rparr> else zad))))
      | _ \<Rightarrow> Inl IndexError)"

text \<open>The loop of line 239: each task is appended before the next line is read.\<close>

fun wczytaj_linie_po_linii ::
  "string list \<Rightarrow> manager_zadan \<Rightarrow> store \<Rightarrow> error option \<times> manager_zadan \<times> store" where
  "wczytaj_linie_po_linii [] m h = (None, m, h)"
| "wczytaj_linie_po_linii (line # rest) m h =
     (case wczytaj_linie line of
        Inl e \<Rightarrow> (Some e, m, h)
      | Inr zad \<Rightarrow>
          wczytaj_linie_po_linii rest (m\<lparr>zadania := zadania m @ [length h]\<rparr>) (h @ [zad]))"

text \<open>\<^verbatim>\<open>wczytaj_z_pliku\<close>, lines 229-256.\<close>

definition wczytaj_z_pliku ::
  "manager_zadan \<Rightarrow> string \<Rightarrow> store \<Rightarrow> files \<Rightarrow> error option \<times> manager_zadan \<times> store" where
  "wczytaj_z_pliku m nazwa_pliku h fs =
     (case sprawdz_sciezke m nazwa_pliku of
        Inl e \<Rightarrow> (Some e, m, h)
      | Inr full_path \<Rightarrow>
          (case fs full_path of
             None \<Rightarrow> (Some FileNotFoundError, m, h)
           | Some content \<Rightarrow>
               wczytaj_linie_po_linii (file_lines (universal_newlines content)) m h))"

section \<open>Sorting by due date\<close>

text \<open>
  Line 379: \<^verbatim>\<open>sorted(manager.zadania, key=lambda x: x.termin_wykonaia or datetime.max.date())\<close>.
  \<^verbatim>\<open>sorted\<close> builds a new list, is stable, and compares keys with \<^verbatim>\<open><\<close>, which
  raises \<^verbatim>\<open>TypeError\<close> between values of different kinds. Two dates compare as their
  triples, two strings by their characters, two booleans as 0 and 1. The sort is written
  as insertion from the right; a stable sort has one result, and any sort of two or more
  keys of different kinds meets a comparison that raises.
\<close>

fun str_lt :: "string \<Rightarrow> string \<Rightarrow> bool" where
  "str_lt [] [] = False"
| "str_lt [] (y # ys) = True"
| "str_lt (x # xs) [] = False"
| "str_lt (x # xs) (y # ys) =
     ((of_char x :: nat) < of_char y \<or> (x = y \<and> str_lt xs ys))"

fun py_lt :: "pyval \<Rightarrow> pyval \<Rightarrow> bool option" where
  "py_lt (PyDate a) (PyDate b) = Some (date_key a < date_key b)"
| "py_lt (PyStr a) (PyStr b) = Some (str_lt a b)"
| "py_lt (PyBool a) (PyBool b) = Some (\<not> a \<and> b)"
| "py_lt a b = None"

fun py_insort :: "('a \<Rightarrow> pyval) \<Rightarrow> 'a \<Rightarrow> 'a list \<Rightarrow> error + 'a list" where
  "py_insort f x [] = Inr [x]"
| "py_insort f x (y # ys) =
     (case py_lt (f y) (f x) of
        None \<Rightarrow> Inl TypeError
      | Some lt \<Rightarrow>
          (if lt then (case py_insort f x ys of Inl e \<Rightarrow> Inl e | Inr r \<Rightarrow> Inr (y # r))
           else Inr (x # y # ys)))"

fun py_sorted :: "('a \<Rightarrow> pyval) \<Rightarrow> 'a list \<Rightarrow> error + 'a list" where
  "py_sorted f [] = Inr []"
| "py_sorted f (x # xs) =
     (case py_sorted f xs of Inl e \<Rightarrow> Inl e | Inr r \<Rightarrow> py_insort f x r)"

definition klucz_terminu :: "zadanie_obj \<Rightarrow> pyval" where
  "klucz_terminu z = py_or (termin_wykonaia z) (PyDate date_max)"

definition posortowane :: "store \<Rightarrow> manager_zadan \<Rightarrow> error + ref list" where
  "posortowane h m = py_sorted (\<lambda>r. klucz_terminu (h ! r)) (zadania m)"

section \<open>Example data\<close>

text \<open>
  The task the program starts with (lines 291-299), without its \<^verbatim>\<open>tagi\<close> attribute, and
  a manager that holds it as the first object of the store.
\<close>

definition przyklad_zadanie :: zadanie_obj where
  "przyklad_zadanie =
     \<lparr>cls = ZadaniePiorytetowe, tytul = PyStr ''Przygotuj raport'',
      opis = PyStr ''Raport kwartalny'',
      termin_wykonaia = PyDate \<lparr>year = 2025, month = 5, day = 15\<rparr>,
      wykonane = PyBool False,
      extra = [(''kategoria'', PyStr ''Finanse''), (''priorytet'', PyStr ''Wysoki'')]\<rparr>"

definition przyklad_manager :: manager_zadan where
  "przyklad_manager = \<lparr>save_dir = ''/home/u/app'', zadania = [0]\<rparr>"

text \<open>Two tasks that tie in the sort: one without a date, one due on the last day.\<close>

definition zadanie_bez_terminu :: zadanie_obj where
  "zadanie_bez_terminu =
     \<lparr>cls = Zadanie, tytul = PyStr ''A'', opis = PyStr [], termin_wykonaia = PyNone,
      wykonane = PyBool False, extra = []\<rparr>"

definition zadanie_ostatniego_dnia :: zadanie_obj where
  "zadanie_ostatniego_dnia =
     \<lparr>cls = Zadanie, tytul = PyStr ''B'', opis = PyStr [], termin_wykonaia = PyDate date_max,
      wykonane = PyBool False, extra = []\<rparr>"

definition przyklad_trzy :: "zadanie_obj list" where
  "przyklad_trzy = [zadanie_bez_terminu, przyklad_zadanie, zadanie_ostatniego_dnia]"

text \<open>A file of two records, as the only file of the example directory.\<close>

definition przyklad_plik :: string where
  "przyklad_plik =
     ''Zadanie;Kup mleko;;2025-06-01;wykonane=True\<newline>'' @
     ''ZadanieRegularne;Podlej kwiaty;balkon;2025-06-02;pilne=True;powtarzalnosc=co tydzien;wykonane=False\<newline>''"

definition przyklad_pliki :: files where
  "przyklad_pliki = [''/home/u/app/zadania.txt'' \<mapsto> przyklad_plik]"

text \<open>One task of each class, with and without a task that has no due date.\<close>

definition zadanie_zwykle :: zadanie_obj where
  "zadanie_zwykle =
     \<lparr>cls = Zadanie, tytul = PyStr ''Kup mleko'', opis = PyStr [],
      termin_wykonaia = PyDate \<lparr>year = 2025, month = 6, day = 1\<rparr>,
      wykonane = PyBool False, extra = [(''kategoria'', PyStr ''Dom'')]\<rparr>"

definition zadanie_regularne :: zadanie_obj where
  "zadanie_regularne =
     \<lparr>cls = ZadanieRegularne, tytul = PyStr ''Podlej kwiaty'', opis = PyStr ''balkon'',
      termin_wykonaia = PyDate \<lparr>year = 2025, month = 6, day = 2\<rparr>,
      wykonane = PyBool False,
      extra = [(''pilne'', PyBool True), (''powtarzalnosc'', PyStr ''co tydzien'')]\<rparr>"

text \<open>
  A task built with a done flag that is no boolean, and the example task with an
  attribute of the name of the toggling method.
\<close>

definition zadanie_tak :: zadanie_obj where
  "zadanie_tak =
     \<lparr>cls = Zadanie, tytul = PyStr ''a'', opis = PyStr [], termin_wykonaia = PyNone,
      wykonane = PyStr ''tak'', extra = []\<rparr>"

definition zadanie_zasloniete :: zadanie_obj where
  "zadanie_zasloniete =
     przyklad_zadanie\<lparr>extra := extra przyklad_zadanie @ [(''wykonany'', PyBool True)]\<rparr>"

definition trzy_klasy :: store where
  "trzy_klasy = [przyklad_zadanie, zadanie_zwykle, zadanie_regularne]"

definition trzy_klasy_bez_terminu :: store where
  "trzy_klasy_bez_terminu = [przyklad_zadanie, zadanie_bez_terminu, zadanie_regularne]"

definition manager_trzech :: manager_zadan where
  "manager_trzech = \<lparr>save_dir = ''/home/u/app'', zadania = [0, 1, 2]\<rparr>"

definition nowy_manager :: manager_zadan where
  "nowy_manager = ManagerZadan_init ''/home/u/app'' None"

section \<open>Notions of the statements\<close>

text \<open>A due date as the data model has it: a date or none.\<close>

fun is_termin :: "pyval \<Rightarrow> bool" where
  "is_termin (PyDate d) = True"
| "is_termin PyNone = True"
| "is_termin v = False"

text \<open>The date a task is sorted by, as a triple: its due date, or the last day.\<close>

definition data_terminu :: "zadanie_obj \<Rightarrow> nat \<times> nat \<times> nat" where
  "data_terminu z = (case termin_wykonaia z of PyDate d \<Rightarrow> date_key d | _ \<Rightarrow> date_key date_max)"

text \<open>
  What the round trip of the codec needs of a task. A text field holds no \<^verbatim>\<open>;\<close> and no
  line break.
\<close>

definition tekst_pola :: "string \<Rightarrow> bool" where
  "tekst_pola s = (CHR '';'' \<notin> set s \<and> CHR 0x0A \<notin> set s \<and> CHR 0x0D \<notin> set s)"

fun is_tekst :: "pyval \<Rightarrow> bool" where
  "is_tekst (PyStr s) = tekst_pola s"
| "is_tekst v = False"

fun is_data :: "pyval \<Rightarrow> bool" where
  "is_data (PyDate d) = valid_date d"
| "is_data v = False"

fun is_bool :: "pyval \<Rightarrow> bool" where
  "is_bool (PyBool b) = True"
| "is_bool v = False"

text \<open>
  A value that comes back as it was written: a boolean, or a text field other than the
  two texts the loader reads as booleans.
\<close>

fun wartosc_ok :: "pyval \<Rightarrow> bool" where
  "wartosc_ok (PyBool b) = True"
| "wartosc_ok (PyStr s) = (tekst_pola s \<and> s \<noteq> ''True'' \<and> s \<noteq> ''False'')"
| "wartosc_ok v = False"

text \<open>
  A key that comes back: a text field without \<^verbatim>\<open>=\<close> that is no positional parameter
  of the constructors. The four core attributes are fields of the record and never keys
  of \<open>extra\<close>, and no construction or assignment of the program makes one of the
  three data descriptors an attribute of a task.
\<close>

definition klucz_ok :: "string \<Rightarrow> bool" where
  "klucz_ok k =
     (tekst_pola k \<and> CHR ''='' \<notin> set k \<and>
      k \<notin> set [''self'', ''tytul'', ''opis'', ''termin'', ''termin_wykonaia'', ''wykonane''] \<and>
      k \<notin> set data_descriptors)"

text \<open>The attribute the constructor of a subclass sets itself.\<close>

fun pola_klasy :: "klasa \<Rightarrow> string list" where
  "pola_klasy Zadanie = []"
| "pola_klasy ZadaniePiorytetowe = [''priorytet'']"
| "pola_klasy ZadanieRegularne = [''powtarzalnosc'']"

text \<open>
  A task the codec returns: title and description are text fields, the due date is a
  date of the calendar, the done flag a boolean, the other attributes have distinct
  keys and values as above, and a task of a subclass has the attribute of its class.
\<close>

definition zapisywalne :: "zadanie_obj \<Rightarrow> bool" where
  "zapisywalne z =
     (is_tekst (tytul z) \<and> is_tekst (opis z) \<and> is_data (termin_wykonaia z) \<and>
      is_bool (wykonane z) \<and> distinct (map fst (extra z)) \<and>
      list_all (\<lambda>kv. klucz_ok (fst kv) \<and> wartosc_ok (snd kv)) (extra z) \<and>
      list_all (\<lambda>f. f \<in> fst ` set (extra z)) (pola_klasy (cls z)))"

text \<open>
  Two tasks agree: the same class, title, description, due date and done flag, and the
  same mapping from the other attribute names to values.
\<close>

definition zgodne :: "zadanie_obj \<Rightarrow> zadanie_obj \<Rightarrow> bool" where
  "zgodne z z' =
     (cls z' = cls z \<and> tytul z' = tytul z \<and> opis z' = opis z \<and>
      termin_wykonaia z' = termin_wykonaia z \<and> wykonane z' = wykonane z \<and>
      map_of (extra z') = map_of (extra z))"

text \<open>The text \<^verbatim>\<open>f"{k}={v}"\<close> of lines 224 and 225.\<close>

definition para :: "string \<times> pyval \<Rightarrow> string" where
  "para kv = fst kv @ ''='' @ py_str (snd kv)"

text \<open>The attribute loop where no assignment raises.\<close>

fun dict_sets :: "zadanie_obj \<Rightarrow> (string \<times> pyval) list \<Rightarrow> zadanie_obj" where
  "dict_sets z [] = z"
| "dict_sets z ((k, v) # kwargs) = dict_sets (dict_set z k v) kwargs"

text \<open>The attributes line 223 leaves out, which the record holds as fields.\<close>

definition core_names :: "string list" where
  "core_names = [''tytul'', ''opis'', ''termin_wykonaia'', ''wykonane'']"

section \<open>Properties\<close>

subsection \<open>Attributes\<close>

lemma getattr_dict_set: "getattr (dict_set z k v) k' = (if k' = k then Some v else getattr z k')"
  by (simp add: getattr_def dict_set_def update_conv')

lemma getattr_dict_sets_other: "k \<notin> fst ` set kw \<Longrightarrow> getattr (dict_sets z kw) k = getattr z k"
  by (induction z kw rule: dict_sets.induct) (auto simp: getattr_dict_set)

lemma getattr_dict_sets_in:
  "distinct (map fst kw) \<Longrightarrow> (k, v) \<in> set kw \<Longrightarrow> getattr (dict_sets z kw) k = Some v"
proof (induction z kw rule: dict_sets.induct)
  case (1 z)
  then show ?case by simp
next
  case (2 z k' v' kwargs)
  show ?case
  proof (cases "(k, v) = (k', v')")
    case True
    with 2 have "k \<notin> fst ` set kwargs" by auto
    then show ?thesis using True by (simp add: getattr_dict_sets_other getattr_dict_set)
  next
    case False
    with 2 show ?thesis by auto
  qed
qed

lemma getattr_dict_sets:
  "distinct (map fst kw) \<Longrightarrow>
   getattr (dict_sets z kw) k = (case map_of kw k of Some v \<Rightarrow> Some v | None \<Rightarrow> getattr z k)"
proof (cases "map_of kw k")
  case None
  assume "distinct (map fst kw)"
  from None have "k \<notin> fst ` set kw" by (simp add: map_of_eq_None_iff)
  then show ?thesis using None by (simp add: getattr_dict_sets_other)
next
  case (Some v)
  assume d: "distinct (map fst kw)"
  from Some have "(k, v) \<in> set kw" by (rule map_of_SomeD)
  then show ?thesis using Some d by (simp add: getattr_dict_sets_in)
qed

lemma setattr_ok: "k \<notin> set data_descriptors \<Longrightarrow> setattr z k v = Inr (dict_set z k v)"
  by (auto simp: setattr_def data_descriptors_def)

lemma setattr_Inr:
  "setattr z k v = Inr z' \<Longrightarrow> z' = dict_set z k v \<and> k \<notin> set data_descriptors"
  by (auto simp: setattr_def data_descriptors_def split: if_splits)

lemma setattrs_ok:
  "\<forall>k \<in> fst ` set kw. k \<notin> set data_descriptors \<Longrightarrow> setattrs z kw = (None, dict_sets z kw)"
  by (induction z kw rule: dict_sets.induct) (auto simp: setattr_ok)

lemma setattrs_None: "setattrs z kw = (None, z') \<Longrightarrow> z' = dict_sets z kw"
proof (induction z kw rule: setattrs.induct)
  case (1 z)
  then show ?case by simp
next
  case (2 z k v kwargs)
  then show ?case by (cases "setattr z k v") (auto dest: setattr_Inr)
qed

lemma setattrs_None_keys:
  "setattrs z kw = (None, z') \<Longrightarrow> \<forall>k \<in> fst ` set kw. k \<notin> set data_descriptors"
proof (induction z kw rule: setattrs.induct)
  case (1 z)
  then show ?case by simp
next
  case (2 z k v kwargs)
  then show ?case by (cases "setattr z k v") (auto dest: setattr_Inr)
qed

lemma Zadanie_init_ok:
  "\<forall>k \<in> fst ` set kw. k \<notin> set data_descriptors \<Longrightarrow>
   Zadanie_init c t d term kw =
     Inr (dict_sets \<lparr>cls = c, tytul = t, opis = d, termin_wykonaia = parse_termin term,
                     wykonane = PyBool False, extra = []\<rparr> kw)"
  by (simp add: Zadanie_init_def setattrs_ok)

lemma Zadanie_init_Inr:
  assumes "Zadanie_init c t d term kw = Inr z"
  shows "z = dict_sets \<lparr>cls = c, tytul = t, opis = d, termin_wykonaia = parse_termin term,
                        wykonane = PyBool False, extra = []\<rparr> kw"
proof -
  let ?z0 = "\<lparr>cls = c, tytul = t, opis = d, termin_wykonaia = parse_termin term,
              wykonane = PyBool False, extra = []\<rparr>"
  obtain e z' where r: "setattrs ?z0 kw = (e, z')" by (cases "setattrs ?z0 kw")
  with assms have "e = None" "z' = z" by (auto simp: Zadanie_init_def split: option.splits)
  with r show ?thesis by (auto dest: setattrs_None)
qed

text \<open>The attribute loop, raising or not, leaves an attribute it does not name.\<close>

lemma setattrs_keeps:
  "k \<notin> fst ` set kw \<Longrightarrow> getattr (snd (setattrs z kw)) k = getattr z k"
proof (induction z kw rule: setattrs.induct)
  case (1 z)
  then show ?case by simp
next
  case (2 z k' v kwargs)
  show ?case
  proof (cases "setattr z k' v")
    case (Inl e)
    then show ?thesis by simp
  next
    case (Inr z')
    then have "z' = dict_set z k' v" by (auto dest: setattr_Inr)
    with 2 Inr show ?thesis by (auto simp: getattr_dict_set)
  qed
qed

text \<open>
  No task has one of the three data descriptors among its attributes: the constructors
  give none, and every assignment that succeeds keeps it so.
\<close>

lemma setattr_bez_deskryptorow:
  assumes "setattr z k v = Inr z'" and "\<forall>a \<in> fst ` set (extra z). a \<notin> set data_descriptors"
  shows "\<forall>a \<in> fst ` set (extra z'). a \<notin> set data_descriptors"
proof -
  from assms(1) have z': "z' = dict_set z k v" and k: "k \<notin> set data_descriptors"
    by (auto dest: setattr_Inr)
  have "extra z' = extra z \<or> extra z' = AList.update k v (extra z)"
    unfolding z' dict_set_def by simp
  moreover have "fst ` set (AList.update k v (extra z)) = {k} \<union> fst ` set (extra z)"
    by (rule dom_update)
  ultimately have "fst ` set (extra z') \<subseteq> insert k (fst ` set (extra z))"
    by force
  with k assms(2) show ?thesis by blast
qed

lemma setattrs_bez_deskryptorow:
  "\<forall>a \<in> fst ` set (extra z). a \<notin> set data_descriptors \<Longrightarrow>
   \<forall>a \<in> fst ` set (extra (snd (setattrs z kw))). a \<notin> set data_descriptors"
proof (induction z kw rule: setattrs.induct)
  case (1 z)
  then show ?case by simp
next
  case (2 z k v kwargs)
  show ?case
  proof (cases "setattr z k v")
    case (Inl e)
    then have "snd (setattrs z ((k, v) # kwargs)) = z" by simp
    with 2(2) show ?thesis by (simp only:)
  next
    case (Inr z')
    have "\<forall>a \<in> fst ` set (extra (snd (setattrs z' kwargs))). a \<notin> set data_descriptors"
      by (rule 2(1) [OF Inr setattr_bez_deskryptorow [OF Inr 2(2)]])
    moreover have "setattrs z ((k, v) # kwargs) = setattrs z' kwargs" using Inr by simp
    ultimately show ?thesis by (simp only:)
  qed
qed

lemma Zadanie_init_bez_deskryptorow:
  assumes "Zadanie_init c t d term kw = Inr z"
  shows "\<forall>a \<in> fst ` set (extra z). a \<notin> set data_descriptors"
proof -
  let ?z0 = "\<lparr>cls = c, tytul = t, opis = d, termin_wykonaia = parse_termin term,
              wykonane = PyBool False, extra = []\<rparr>"
  obtain e z' where r: "setattrs ?z0 kw = (e, z')" by (cases "setattrs ?z0 kw")
  with assms have "z' = z" by (auto simp: Zadanie_init_def split: option.splits)
  with r have "z = snd (setattrs ?z0 kw)" by simp
  moreover have "\<forall>a \<in> fst ` set (extra (snd (setattrs ?z0 kw))). a \<notin> set data_descriptors"
    by (rule setattrs_bez_deskryptorow) simp
  ultimately show ?thesis by (simp only:)
qed

lemma podklasa_bez_deskryptorow:
  assumes "(case Zadanie_init c t d term kw of Inl e \<Rightarrow> Inl e | Inr z1 \<Rightarrow> setattr z1 f p) = Inr z"
  shows "\<forall>a \<in> fst ` set (extra z). a \<notin> set data_descriptors"
proof (cases "Zadanie_init c t d term kw")
  case (Inl e)
  with assms show ?thesis by simp
next
  case (Inr z1)
  with assms have "setattr z1 f p = Inr z" by simp
  then show ?thesis
    using Zadanie_init_bez_deskryptorow [OF Inr] by (rule setattr_bez_deskryptorow)
qed

lemma call_klasa_bez_deskryptorow:
  assumes "call_klasa c t d term attrs = Inr z"
  shows "\<forall>a \<in> fst ` set (extra z). a \<notin> set data_descriptors"
proof (cases c)
  case Zadanie
  with assms have "Zadanie_init Zadanie t d term attrs = Inr z"
    by (simp add: call_klasa_def split: if_splits)
  then show ?thesis by (rule Zadanie_init_bez_deskryptorow)
next
  case ZadaniePiorytetowe
  with assms obtain p kw where
    "(case Zadanie_init ZadaniePiorytetowe t d term kw of
        Inl e \<Rightarrow> Inl e | Inr z1 \<Rightarrow> setattr z1 ''priorytet'' p) = Inr z"
    by (simp add: call_klasa_def ZadaniePiorytetowe_init_def split: if_splits)
  then show ?thesis by (rule podklasa_bez_deskryptorow)
next
  case ZadanieRegularne
  with assms obtain p kw where
    "(case Zadanie_init ZadanieRegularne t d term kw of
        Inl e \<Rightarrow> Inl e | Inr z1 \<Rightarrow> setattr z1 ''powtarzalnosc'' p) = Inr z"
    by (simp add: call_klasa_def ZadanieRegularne_init_def split: if_splits)
  then show ?thesis by (rule podklasa_bez_deskryptorow)
qed

lemma edytuj_bez_deskryptorow:
  assumes "\<forall>a \<in> fst ` set (extra z). a \<notin> set data_descriptors"
  shows "\<forall>a \<in> fst ` set (extra (snd (edytuj_pola z nowy_tytul nowy_opis nowy_termin kwargs))).
           a \<notin> set data_descriptors"
  unfolding edytuj_pola_def Let_def
  by (rule setattrs_bez_deskryptorow) (use assms in simp)

lemma wykonane_getattr: "getattr z ''wykonane'' = Some (wykonane z)"
  by (simp add: getattr_def)

lemma field_getattr:
  "getattr z ''tytul'' = Some (tytul z)" "getattr z ''opis'' = Some (opis z)"
  "getattr z ''termin_wykonaia'' = Some (termin_wykonaia z)"
  by (simp_all add: getattr_def)

lemma setattrs_keeps_tytul:
  "''tytul'' \<notin> fst ` set kw \<Longrightarrow> tytul (snd (setattrs z kw)) = tytul z"
  using setattrs_keeps [of "''tytul''" kw z] by (simp add: field_getattr)

lemma setattrs_keeps_opis:
  "''opis'' \<notin> fst ` set kw \<Longrightarrow> opis (snd (setattrs z kw)) = opis z"
  using setattrs_keeps [of "''opis''" kw z] by (simp add: field_getattr)

lemma wykonane_Zadanie_init:
  assumes "distinct (map fst kw)" and "Zadanie_init c t d term kw = Inr z"
  shows "wykonane z = (case map_of kw ''wykonane'' of None \<Rightarrow> PyBool False | Some v \<Rightarrow> v)"
  using getattr_dict_sets [OF assms(1), of _ "''wykonane''"] Zadanie_init_Inr [OF assms(2)]
  by (auto simp: getattr_def split: option.splits)

lemma wykonane_podklasa:
  assumes "distinct (map fst kw)" and "f \<noteq> ''wykonane''"
    and "(case Zadanie_init c t d term kw of Inl e \<Rightarrow> Inl e | Inr z \<Rightarrow> setattr z f p) = Inr z'"
  shows "wykonane z' = (case map_of kw ''wykonane'' of None \<Rightarrow> PyBool False | Some v \<Rightarrow> v)"
proof (cases "Zadanie_init c t d term kw")
  case (Inl e)
  with assms(3) show ?thesis by simp
next
  case (Inr z1)
  with assms(3) have "z' = dict_set z1 f p" by (auto dest: setattr_Inr)
  then have "wykonane z' = wykonane z1" using assms(2) by (simp add: dict_set_def)
  then show ?thesis using wykonane_Zadanie_init [OF assms(1) Inr] by simp
qed

lemma map_of_filter_key:
  "k \<noteq> k' \<Longrightarrow> map_of (filter (\<lambda>kv. fst kv \<noteq> k') al) k = map_of al k"
  by (induction al) auto

lemma przyklad_zadanie_simps:
  "tytul przyklad_zadanie = PyStr ''Przygotuj raport''"
  "opis przyklad_zadanie = PyStr ''Raport kwartalny''"
  "termin_wykonaia przyklad_zadanie = PyDate \<lparr>year = 2025, month = 5, day = 15\<rparr>"
  "wykonane przyklad_zadanie = PyBool False"
  "cls przyklad_zadanie = ZadaniePiorytetowe"
  "extra przyklad_zadanie = [(''kategoria'', PyStr ''Finanse''), (''priorytet'', PyStr ''Wysoki'')]"
  by (simp_all add: przyklad_zadanie_def)

text \<open>Adding the example task as the program does, by keyword arguments.\<close>

lemma dodaj_przyklad:
  "dodaj_zadanie (ManagerZadan_init ''/home/u/app'' None) None (PyStr ''Przygotuj raport'')
     (PyStr ''Raport kwartalny'') (PyDate \<lparr>year = 2025, month = 5, day = 15\<rparr>) ''priorytet''
     [(''priorytet'', PyStr ''Wysoki''), (''kategoria'', PyStr ''Finanse'')] []
   = Inr (przyklad_manager, [przyklad_zadanie])"
  by (simp add: dodaj_zadanie_def klasa_of_typ_def call_klasa_def positional_names_def py_or_def
      ManagerZadan_init_def przyklad_manager_def przyklad_zadanie_def
      ZadaniePiorytetowe_init_def Zadanie_init_def setattr_def dict_set_def parse_termin_def)

subsection \<open>Construction and the done flag\<close>

text \<open>
  C3 (as amended). A task constructed with keyword attributes that carry no
  \<^verbatim>\<open>wykonane\<close> key has the done flag false. A \<^verbatim>\<open>wykonane\<close> key among them is
  applied by the attribute loop of the constructor like every other key, after the flag
  was set to false, so the flag of the new task is the value given. This holds for the
  three classes, called as the loader and \<^verbatim>\<open>dodaj_zadanie\<close> call them.
\<close>

theorem konstruktor_wykonane:
  assumes "distinct (map fst attrs)" and "call_klasa c t d term attrs = Inr z"
  shows "wykonane z = (case map_of attrs ''wykonane'' of None \<Rightarrow> PyBool False | Some v \<Rightarrow> v)"
proof -
  have ok: "\<not> list_ex (\<lambda>k. k \<in> set positional_names) (map fst attrs)"
    using assms(2) by (auto simp: call_klasa_def split: if_splits)
  show ?thesis
  proof (cases c)
    case Zadanie
    then have "Zadanie_init Zadanie t d term attrs = Inr z"
      using assms(2) ok by (simp add: call_klasa_def)
    then show ?thesis using assms(1) by (rule wykonane_Zadanie_init [rotated])
  next
    case ZadaniePiorytetowe
    let ?kw = "filter (\<lambda>kv. fst kv \<noteq> ''priorytet'') attrs"
    from ZadaniePiorytetowe obtain p where
      z: "ZadaniePiorytetowe_init t d term p ?kw = Inr z"
      using assms(2) ok by (auto simp: call_klasa_def)
    have d: "distinct (map fst ?kw)" using assms(1) by (rule distinct_map_filter)
    have m: "map_of ?kw ''wykonane'' = map_of attrs ''wykonane''"
      by (rule map_of_filter_key) simp
    have "wykonane z = (case map_of ?kw ''wykonane'' of None \<Rightarrow> PyBool False | Some v \<Rightarrow> v)"
      by (rule wykonane_podklasa [OF d _ z [unfolded ZadaniePiorytetowe_init_def]]) simp
    then show ?thesis by (simp only: m)
  next
    case ZadanieRegularne
    let ?kw = "filter (\<lambda>kv. fst kv \<noteq> ''powtarzalnosc'') attrs"
    from ZadanieRegularne obtain p where
      z: "ZadanieRegularne_init t d term p ?kw = Inr z"
      using assms(2) ok by (auto simp: call_klasa_def)
    have d: "distinct (map fst ?kw)" using assms(1) by (rule distinct_map_filter)
    have m: "map_of ?kw ''wykonane'' = map_of attrs ''wykonane''"
      by (rule map_of_filter_key) simp
    have "wykonane z = (case map_of ?kw ''wykonane'' of None \<Rightarrow> PyBool False | Some v \<Rightarrow> v)"
      by (rule wykonane_podklasa [OF d _ z [unfolded ZadanieRegularne_init_def]]) simp
    then show ?thesis by (simp only: m)
  qed
qed

theorem konstruktor_wykonane_witness:
  "call_klasa Zadanie (PyStr ''a'') (PyStr []) PyNone [(''kategoria'', PyStr ''x'')]
     = Inr \<lparr>cls = Zadanie, tytul = PyStr ''a'', opis = PyStr [], termin_wykonaia = PyNone,
            wykonane = PyBool False, extra = [(''kategoria'', PyStr ''x'')]\<rparr> \<and>
   call_klasa ZadaniePiorytetowe (PyStr ''a'') (PyStr []) PyNone
       [(''priorytet'', PyStr ''Wysoki''), (''wykonane'', PyStr ''tak'')]
     = Inr \<lparr>cls = ZadaniePiorytetowe, tytul = PyStr ''a'', opis = PyStr [],
            termin_wykonaia = PyNone, wykonane = PyStr ''tak'',
            extra = [(''priorytet'', PyStr ''Wysoki'')]\<rparr> \<and>
   wykonane \<lparr>cls = ZadaniePiorytetowe, tytul = PyStr ''a'', opis = PyStr [],
             termin_wykonaia = PyNone, wykonane = PyStr ''tak'',
             extra = [(''priorytet'', PyStr ''Wysoki'')]\<rparr> = PyStr ''tak''"
proof -
  have 1: "distinct (map fst [(''kategoria'', PyStr ''x'')])" by simp
  have 2: "call_klasa Zadanie (PyStr ''a'') (PyStr []) PyNone [(''kategoria'', PyStr ''x'')]
     = Inr \<lparr>cls = Zadanie, tytul = PyStr ''a'', opis = PyStr [], termin_wykonaia = PyNone,
            wykonane = PyBool False, extra = [(''kategoria'', PyStr ''x'')]\<rparr>"
    by (simp add: call_klasa_def positional_names_def Zadanie_init_def setattr_def dict_set_def
        parse_termin_def)
  have 3: "distinct (map fst [(''priorytet'', PyStr ''Wysoki''), (''wykonane'', PyStr ''tak'')])"
    by simp
  have 4: "call_klasa ZadaniePiorytetowe (PyStr ''a'') (PyStr []) PyNone
       [(''priorytet'', PyStr ''Wysoki''), (''wykonane'', PyStr ''tak'')]
     = Inr \<lparr>cls = ZadaniePiorytetowe, tytul = PyStr ''a'', opis = PyStr [],
            termin_wykonaia = PyNone, wykonane = PyStr ''tak'',
            extra = [(''priorytet'', PyStr ''Wysoki'')]\<rparr>"
    by (simp add: call_klasa_def positional_names_def ZadaniePiorytetowe_init_def
        Zadanie_init_def setattr_def dict_set_def parse_termin_def)
  show ?thesis
    using konstruktor_wykonane [OF 1 2] konstruktor_wykonane [OF 3 4] 2 4 by simp
qed

text \<open>
  C3 as stated fails: a \<^verbatim>\<open>wykonane\<close> key among the keyword attributes of
  \<^verbatim>\<open>Zadanie("a", wykonane=True)\<close> leaves the flag true.
\<close>

theorem wykonane_z_kwargs:
  "Zadanie_init Zadanie (PyStr ''a'') (PyStr []) PyNone [(''wykonane'', PyBool True)]
     = Inr \<lparr>cls = Zadanie, tytul = PyStr ''a'', opis = PyStr [], termin_wykonaia = PyNone,
            wykonane = PyBool True, extra = []\<rparr>"
  by (simp add: Zadanie_init_def setattr_def dict_set_def parse_termin_def)

subsection \<open>Toggling\<close>

text \<open>
  C9 (as amended). For a task that has no attribute named \<^verbatim>\<open>wykonany\<close>, a call of
  \<^verbatim>\<open>wykonany\<close> raises nothing, flips the truth value of the done flag and changes no
  other attribute, and so does a second call, which gives the truth value back. When
  the done flag is a boolean, the first call negates it and the second gives back the
  flag and the whole task.
\<close>

theorem wykonany_toggle:
  assumes "''wykonany'' \<notin> fst ` set (extra z)"
  shows "\<exists>z1 z2. wykonany z = Inr z1 \<and> wykonany z1 = Inr z2 \<and>
           truthy (wykonane z1) = (\<not> truthy (wykonane z)) \<and>
           truthy (wykonane z2) = truthy (wykonane z) \<and>
           cls z1 = cls z \<and> tytul z1 = tytul z \<and> opis z1 = opis z \<and>
           termin_wykonaia z1 = termin_wykonaia z \<and> extra z1 = extra z \<and>
           z2 = z1\<lparr>wykonane := wykonane z2\<rparr> \<and>
           (wykonane z = PyBool b \<longrightarrow> wykonane z1 = PyBool (\<not> b) \<and> z2 = z)"
  using assms by (simp add: wykonany_def)

theorem wykonany_toggle_witness:
  "wykonany przyklad_zadanie = Inr (przyklad_zadanie\<lparr>wykonane := PyBool True\<rparr>) \<and>
   wykonany (przyklad_zadanie\<lparr>wykonane := PyBool True\<rparr>) = Inr przyklad_zadanie"
proof -
  have 1: "''wykonany'' \<notin> fst ` set (extra przyklad_zadanie)"
    by (simp add: przyklad_zadanie_simps)
  from wykonany_toggle [OF 1, of False] obtain z1 z2 where
    a: "wykonany przyklad_zadanie = Inr z1" and b: "wykonany z1 = Inr z2"
    and c: "wykonane z1 = PyBool True" and d: "z2 = przyklad_zadanie"
    and e: "cls z1 = cls przyklad_zadanie" "tytul z1 = tytul przyklad_zadanie"
      "opis z1 = opis przyklad_zadanie"
      "termin_wykonaia z1 = termin_wykonaia przyklad_zadanie"
      "extra z1 = extra przyklad_zadanie"
    by (auto simp: przyklad_zadanie_simps)
  from c e have "z1 = przyklad_zadanie\<lparr>wykonane := PyBool True\<rparr>" by simp
  with a b d show ?thesis by simp
qed

text \<open>
  C9 as stated fails in two ways. A done flag that is no boolean, as the constructor
  call \<^verbatim>\<open>Zadanie("a", wykonane="tak")\<close> leaves it, is false after one call and true
  after two, not the text it was. And with an attribute named \<^verbatim>\<open>wykonany\<close>, as a
  constructor keyword or a loaded pair \<^verbatim>\<open>wykonany=True\<close> leaves it, the call raises.
\<close>

theorem wykonany_nie_wraca:
  "Zadanie_init Zadanie (PyStr ''a'') (PyStr []) PyNone [(''wykonane'', PyStr ''tak'')]
     = Inr zadanie_tak \<and>
   wykonane zadanie_tak = PyStr ''tak'' \<and>
   wykonany zadanie_tak = Inr (zadanie_tak\<lparr>wykonane := PyBool False\<rparr>) \<and>
   wykonany (zadanie_tak\<lparr>wykonane := PyBool False\<rparr>)
     = Inr (zadanie_tak\<lparr>wykonane := PyBool True\<rparr>) \<and>
   setattr przyklad_zadanie ''wykonany'' (PyBool True) = Inr zadanie_zasloniete \<and>
   wykonany zadanie_zasloniete = Inl TypeError"
  by (simp add: Zadanie_init_def setattr_def dict_set_def parse_termin_def zadanie_tak_def
      wykonany_def zadanie_zasloniete_def przyklad_zadanie_def)

subsection \<open>Marking as done\<close>

text \<open>Removing tests membership: a task outside the list leaves the manager as it is.\<close>

lemma usun_nieczlonek: "r \<notin> set (zadania m) \<Longrightarrow> usun_zadanie m (Some r) t h = m"
  by (simp add: usun_zadanie_def target_of_def)

text \<open>An unknown title changes nothing.\<close>

lemma oznacz_nieznany_tytul:
  "List.find (\<lambda>r. tytul (h ! r) = t) (zadania m) = None \<Longrightarrow>
   oznacz_jako_wykonane m None t h = h"
  by (simp add: oznacz_jako_wykonane_def target_of_def)

text \<open>
  C4. \<^verbatim>\<open>oznacz_jako_wykonane\<close> given a task object takes it as the target without
  the membership test its siblings \<^verbatim>\<open>usun_zadanie\<close> (line 181) and
  \<^verbatim>\<open>edytuj_zadanie\<close> (line 199) make: the done flag of a task outside the manager's
  list is set.
\<close>

theorem oznacz_nieczlonek:
  "0 \<notin> set (zadania (ManagerZadan_init ''/home/u/app'' None)) \<and>
   wykonane ([przyklad_zadanie] ! 0) = PyBool False \<and>
   wykonane (oznacz_jako_wykonane (ManagerZadan_init ''/home/u/app'' None) (Some 0) PyNone
               [przyklad_zadanie] ! 0) = PyBool True"
  by (simp add: ManagerZadan_init_def oznacz_jako_wykonane_def target_of_def
      przyklad_zadanie_simps)

subsection \<open>Editing\<close>

text \<open>
  C7. For a task of the manager's list, an empty string as the new title (as the new
  description) acts as no argument at all, and the title (the description) stays as it
  was, unless the keyword attributes assign that very attribute.
\<close>

theorem edytuj_pusty_tekst:
  assumes "zadanie \<in> set (zadania m)" and "zadanie < length h"
  shows "(''tytul'' \<notin> fst ` set kwargs \<longrightarrow>
            tytul (snd (edytuj_zadanie m zadanie (PyStr []) nowy_opis nowy_termin kwargs h)
                     ! zadanie)
              = tytul (h ! zadanie)) \<and>
         (''opis'' \<notin> fst ` set kwargs \<longrightarrow>
            opis (snd (edytuj_zadanie m zadanie nowy_tytul (PyStr []) nowy_termin kwargs h)
                    ! zadanie)
              = opis (h ! zadanie)) \<and>
         edytuj_zadanie m zadanie (PyStr []) nowy_opis nowy_termin kwargs h
           = edytuj_zadanie m zadanie PyNone nowy_opis nowy_termin kwargs h \<and>
         edytuj_zadanie m zadanie nowy_tytul (PyStr []) nowy_termin kwargs h
           = edytuj_zadanie m zadanie nowy_tytul PyNone nowy_termin kwargs h"
  using assms
  by (simp add: edytuj_zadanie_def edytuj_pola_def Let_def case_prod_beta setattrs_keeps_tytul
      setattrs_keeps_opis)

theorem edytuj_pusty_tekst_witness:
  "tytul (snd (edytuj_zadanie przyklad_manager 0 (PyStr []) (PyStr ''nowy opis'') PyNone
            [(''kategoria'', PyStr ''Inne'')] [przyklad_zadanie]) ! 0)
     = PyStr ''Przygotuj raport'' \<and>
   opis (snd (edytuj_zadanie przyklad_manager 0 (PyStr ''nowy'') (PyStr []) PyNone
            [(''kategoria'', PyStr ''Inne'')] [przyklad_zadanie]) ! 0)
     = PyStr ''Raport kwartalny''"
proof -
  have 1: "(0::nat) \<in> set (zadania przyklad_manager)" by (simp add: przyklad_manager_def)
  have 2: "(0::nat) < length [przyklad_zadanie]" by simp
  have 3: "''tytul'' \<notin> fst ` set [(''kategoria'', PyStr ''Inne'')]" by simp
  have 4: "''opis'' \<notin> fst ` set [(''kategoria'', PyStr ''Inne'')]" by simp
  note t = edytuj_pusty_tekst [OF 1 2, of "[(''kategoria'', PyStr ''Inne'')]"
      "PyStr ''nowy opis''" PyNone "PyStr ''nowy''"]
  from t 3 have a:
    "tytul (snd (edytuj_zadanie przyklad_manager 0 (PyStr []) (PyStr ''nowy opis'') PyNone
              [(''kategoria'', PyStr ''Inne'')] [przyklad_zadanie]) ! 0)
       = tytul ([przyklad_zadanie] ! 0)" by blast
  from t 4 have b:
    "opis (snd (edytuj_zadanie przyklad_manager 0 (PyStr ''nowy'') (PyStr []) PyNone
             [(''kategoria'', PyStr ''Inne'')] [przyklad_zadanie]) ! 0)
       = opis ([przyklad_zadanie] ! 0)" by blast
  show ?thesis using a b by (simp add: przyklad_zadanie_simps)
qed

text \<open>
  C8. \<^verbatim>\<open>edytuj_zadanie\<close> on a task that is not in the manager's list raises nothing
  and changes no object of the store, whatever the new title, description, date and
  keyword attributes.
\<close>

theorem edytuj_nieczlonek:
  "zadanie \<notin> set (zadania m) \<Longrightarrow>
   edytuj_zadanie m zadanie nowy_tytul nowy_opis nowy_termin kwargs h = (None, h)"
  by (simp add: edytuj_zadanie_def)

theorem edytuj_nieczlonek_witness:
  "edytuj_zadanie przyklad_manager 1 (PyStr ''x'') (PyStr ''y'')
     (PyDate \<lparr>year = 2026, month = 1, day = 1\<rparr>) [(''wykonane'', PyBool True)]
     [przyklad_zadanie, przyklad_zadanie] = (None, [przyklad_zadanie, przyklad_zadanie])"
proof -
  have "(1::nat) \<notin> set (zadania przyklad_manager)" by (simp add: przyklad_manager_def)
  then show ?thesis by (rule edytuj_nieczlonek)
qed

text \<open>
  C10. For a task of the manager's list, every keyword attribute is assigned with
  \<^verbatim>\<open>setattr\<close> and no key is held back. When none of the keys is a name
  \<^verbatim>\<open>setattr\<close> itself refuses (\<^verbatim>\<open>__class__\<close>, \<^verbatim>\<open>__dict__\<close>,
  \<^verbatim>\<open>__weakref__\<close>), the call raises nothing, after it every attribute named has the
  value given, and the keys \<^verbatim>\<open>wykonane\<close>, \<^verbatim>\<open>tytul\<close>, \<^verbatim>\<open>opis\<close> and
  \<^verbatim>\<open>termin_wykonaia\<close> overwrite the done flag, the title, the description and the
  due date.
\<close>

theorem edytuj_kwargs:
  assumes "zadanie \<in> set (zadania m)" and "zadanie < length h"
    and "distinct (map fst kwargs)" and "(k, v) \<in> set kwargs"
    and "\<forall>k' \<in> fst ` set kwargs. k' \<notin> set data_descriptors"
  shows "fst (edytuj_zadanie m zadanie nowy_tytul nowy_opis nowy_termin kwargs h) = None \<and>
         getattr (snd (edytuj_zadanie m zadanie nowy_tytul nowy_opis nowy_termin kwargs h)
                    ! zadanie) k = Some v \<and>
         (k = ''wykonane'' \<longrightarrow>
            wykonane (snd (edytuj_zadanie m zadanie nowy_tytul nowy_opis nowy_termin kwargs h)
                        ! zadanie) = v) \<and>
         (k = ''tytul'' \<longrightarrow>
            tytul (snd (edytuj_zadanie m zadanie nowy_tytul nowy_opis nowy_termin kwargs h)
                     ! zadanie) = v) \<and>
         (k = ''opis'' \<longrightarrow>
            opis (snd (edytuj_zadanie m zadanie nowy_tytul nowy_opis nowy_termin kwargs h)
                    ! zadanie) = v) \<and>
         (k = ''termin_wykonaia'' \<longrightarrow>
            termin_wykonaia
              (snd (edytuj_zadanie m zadanie nowy_tytul nowy_opis nowy_termin kwargs h)
                 ! zadanie) = v)"
proof -
  let ?r = "edytuj_zadanie m zadanie nowy_tytul nowy_opis nowy_termin kwargs h"
  have "fst ?r = None \<and> getattr (snd ?r ! zadanie) k = Some v"
    using assms(1-4)
    by (simp add: edytuj_zadanie_def edytuj_pola_def Let_def setattrs_ok [OF assms(5)]
        getattr_dict_sets_in)
  then show ?thesis
    by (auto simp: getattr_def split: if_splits)
qed

theorem edytuj_kwargs_witness:
  "fst (edytuj_zadanie przyklad_manager 0 PyNone PyNone PyNone [(''wykonane'', PyBool True)]
          [przyklad_zadanie]) = None \<and>
   wykonane (snd (edytuj_zadanie przyklad_manager 0 PyNone PyNone PyNone
                    [(''wykonane'', PyBool True)] [przyklad_zadanie]) ! 0) = PyBool True"
proof -
  have 1: "(0::nat) \<in> set (zadania przyklad_manager)" by (simp add: przyklad_manager_def)
  have 2: "(0::nat) < length [przyklad_zadanie]" by simp
  have 3: "distinct (map fst [(''wykonane'', PyBool True)])" by simp
  have 4: "(''wykonane'', PyBool True) \<in> set [(''wykonane'', PyBool True)]" by simp
  have 5: "\<forall>k' \<in> fst ` set [(''wykonane'', PyBool True)]. k' \<notin> set data_descriptors"
    by (simp add: data_descriptors_def)
  show ?thesis using edytuj_kwargs [OF 1 2 3 4 5] by simp
qed

text \<open>
  A key that \<^verbatim>\<open>setattr\<close> refuses ends the loop with its error: the keys before it are
  assigned, the keys after it are not.
\<close>

lemma edytuj_przerwane:
  "edytuj_zadanie przyklad_manager 0 PyNone PyNone PyNone
     [(''kategoria'', PyStr ''Inne''), (''__class__'', PyStr ''x''), (''wykonane'', PyBool True)]
     [przyklad_zadanie]
   = (Some TypeError,
      [przyklad_zadanie\<lparr>extra := [(''kategoria'', PyStr ''Inne''),
                                  (''priorytet'', PyStr ''Wysoki'')]\<rparr>])"
  by (simp add: edytuj_zadanie_def edytuj_pola_def przyklad_manager_def setattr_def dict_set_def
      przyklad_zadanie_def)

subsection \<open>Sorting by due date\<close>

lemma klucz_terminu_date:
  "is_termin (termin_wykonaia z) \<Longrightarrow> \<exists>d. klucz_terminu z = PyDate d \<and> date_key d = data_terminu z"
  by (cases "termin_wykonaia z") (auto simp: klucz_terminu_def py_or_def data_terminu_def)

lemma py_insort_dates:
  assumes "\<forall>y \<in> set (x # ys). \<exists>d. f y = PyDate d \<and> date_key d = g y"
  shows "py_insort f x ys = Inr (insort_key g x ys)"
  using assms
proof (induction ys)
  case Nil
  then show ?case by simp
next
  case (Cons y ys)
  from Cons.prems obtain dx dy where
    "f x = PyDate dx" "date_key dx = g x" "f y = PyDate dy" "date_key dy = g y"
    by auto
  moreover have "py_insort f x ys = Inr (insort_key g x ys)"
    using Cons by auto
  ultimately show ?case by (auto simp: not_less)
qed

lemma py_sorted_dates:
  assumes "\<forall>y \<in> set xs. \<exists>d. f y = PyDate d \<and> date_key d = g y"
  shows "py_sorted f xs = Inr (sort_key g xs)"
  using assms
proof (induction xs)
  case Nil
  then show ?case by simp
next
  case (Cons x xs)
  have "py_sorted f xs = Inr (sort_key g xs)" using Cons by auto
  moreover have "py_insort f x (sort_key g xs) = Inr (insort_key g x (sort_key g xs))"
    by (rule py_insort_dates) (use Cons.prems in auto)
  ultimately show ?case by simp
qed

text \<open>
  C6 (as amended). When every task of the manager has a date or none as its due date,
  the sorted display is a list of all the manager's tasks (the same references, each as
  often), ascending by due date with a missing date counted as 9999-12-31. Tasks with
  the same date, and the tasks without a date together with those due on 9999-12-31,
  keep their insertion order. A task without a date stands after every task due before
  9999-12-31. \<^verbatim>\<open>sorted\<close> returns a new list: the manager is no result of the function
  and keeps its order.
\<close>

theorem posortowane_po_terminie:
  assumes "\<forall>r \<in> set (zadania m). is_termin (termin_wykonaia (h ! r))"
  shows "\<exists>ys. posortowane h m = Inr ys \<and> mset ys = mset (zadania m) \<and>
           sorted (map (\<lambda>r. data_terminu (h ! r)) ys) \<and>
           (\<forall>k. filter (\<lambda>r. data_terminu (h ! r) = k) ys
                 = filter (\<lambda>r. data_terminu (h ! r) = k) (zadania m)) \<and>
           (\<forall>i j. i < length ys \<and> j < length ys \<and>
                  termin_wykonaia (h ! (ys ! i)) = PyNone \<and>
                  data_terminu (h ! (ys ! j)) < date_key date_max \<longrightarrow> j < i)"
proof -
  let ?g = "\<lambda>r. data_terminu (h ! r)"
  let ?ys = "sort_key ?g (zadania m)"
  have eq: "posortowane h m = Inr ?ys"
    unfolding posortowane_def
    by (rule py_sorted_dates) (use assms klucz_terminu_date in blast)
  have srt: "sorted (map ?g ?ys)" by (rule sorted_sort_key)
  have late: "j < i"
    if "i < length ?ys" "j < length ?ys" "termin_wykonaia (h ! (?ys ! i)) = PyNone"
       "?g (?ys ! j) < date_key date_max" for i j
  proof (rule ccontr)
    assume "\<not> j < i"
    then have "i \<le> j" by simp
    then have "map ?g ?ys ! i \<le> map ?g ?ys ! j"
      using srt that(2) by (simp add: sorted_iff_nth_mono del: sorted_sort_key)
    moreover have "?g (?ys ! i) = date_key date_max"
      using that(3) by (simp add: data_terminu_def)
    ultimately show False using that by simp
  qed
  show ?thesis
    using eq srt late by (intro exI [of _ ?ys]) (simp add: sort_key_stable)
qed

theorem posortowane_po_terminie_witness:
  "\<exists>ys. posortowane przyklad_trzy \<lparr>save_dir = ''/home/u/app'', zadania = [0, 1, 2]\<rparr> = Inr ys \<and>
        ys = [1, 0, 2] \<and>
        sorted (map (\<lambda>r. data_terminu (przyklad_trzy ! r)) ys)"
proof -
  let ?m = "\<lparr>save_dir = ''/home/u/app'', zadania = [0, 1, 2]\<rparr>"
  have t: "termin_wykonaia zadanie_bez_terminu = PyNone"
    "termin_wykonaia zadanie_ostatniego_dnia = PyDate date_max"
    by (simp_all add: zadanie_bez_terminu_def zadanie_ostatniego_dnia_def Zadanie_init_def
        parse_termin_def)
  have hyp: "\<forall>r \<in> set (zadania ?m). is_termin (termin_wykonaia (przyklad_trzy ! r))"
    by (simp add: przyklad_trzy_def t przyklad_zadanie_simps)
  from posortowane_po_terminie [OF hyp] obtain ys where
    ys: "posortowane przyklad_trzy ?m = Inr ys"
    and s: "sorted (map (\<lambda>r. data_terminu (przyklad_trzy ! r)) ys)"
    by blast
  have "posortowane przyklad_trzy ?m = Inr [1, 0, 2]"
    by (simp add: posortowane_def przyklad_trzy_def klucz_terminu_def py_or_def t
        przyklad_zadanie_simps date_key_def date_max_def)
  with ys have "ys = [1, 0, 2]" by simp
  with ys s show ?thesis by blast
qed

text \<open>
  C6 as stated fails for a task due on 9999-12-31: a task without a date that was
  added before it stays before it.
\<close>

theorem posortowane_remis:
  "posortowane [zadanie_bez_terminu, zadanie_ostatniego_dnia]
     \<lparr>save_dir = ''/home/u/app'', zadania = [0, 1]\<rparr> = Inr [0, 1] \<and>
   termin_wykonaia ([zadanie_bez_terminu, zadanie_ostatniego_dnia] ! 0) = PyNone \<and>
   termin_wykonaia ([zadanie_bez_terminu, zadanie_ostatniego_dnia] ! 1) = PyDate date_max"
  by (simp add: posortowane_def klucz_terminu_def py_or_def zadanie_bez_terminu_def
      zadanie_ostatniego_dnia_def Zadanie_init_def parse_termin_def)

subsection \<open>The path check\<close>

lemma przyklad_linia:
  "linia_zadania przyklad_zadanie =
     Inr ''ZadaniePiorytetowe;Przygotuj raport;Raport kwartalny;2025-05-15;kategoria=Finanse;priorytet=Wysoki;wykonane=False\<newline>''"
  by (simp add: linia_zadania_def przyklad_zadanie_simps isoformat_def zfill_def digit_char_def)

lemma sciezka_poza_katalogiem:
  "sprawdz_sciezke przyklad_manager ''../../etc/passwd'' = Inr ''/home/u/app/../../etc/passwd''"
  by (simp add: sprawdz_sciezke_def przyklad_manager_def path_join_def commonpath_def
      path_components_def)

text \<open>A file name that is an absolute path outside the directory is refused.\<close>

lemma sciezka_bezwzgledna:
  "sprawdz_sciezke przyklad_manager ''/etc/passwd'' = Inl ValueError"
  by (simp add: sprawdz_sciezke_def przyklad_manager_def path_join_def commonpath_def
      path_components_def)

text \<open>
  C2. The check compares \<^verbatim>\<open>commonpath\<close> of the directory and the joined path with the
  directory, and \<^verbatim>\<open>commonpath\<close> does not follow \<^verbatim>\<open>..\<close>: for the file name
  \<^verbatim>\<open>../../etc/passwd\<close> in \<^verbatim>\<open>/home/u/app\<close> the check passes, saving raises
  nothing and writes the file whose path leads to \<^verbatim>\<open>/home/etc/passwd\<close>, and loading
  opens and reads that file (here its first line is no record, and the error is the
  parser's, not the check's).
\<close>

theorem zapis_poza_katalogiem:
  "fst (zapisz_do_pliku przyklad_manager ''../../etc/passwd'' [przyklad_zadanie] Map.empty) = None \<and>
   snd (zapisz_do_pliku przyklad_manager ''../../etc/passwd'' [przyklad_zadanie] Map.empty)
     ''/home/u/app/../../etc/passwd''
     = Some ''ZadaniePiorytetowe;Przygotuj raport;Raport kwartalny;2025-05-15;kategoria=Finanse;priorytet=Wysoki;wykonane=False\<newline>'' \<and>
   normpath_abs ''/home/u/app/../../etc/passwd'' = ''/home/etc/passwd'' \<and>
   wczytaj_z_pliku (ManagerZadan_init ''/home/u/app'' None) ''../../etc/passwd'' []
     [''/home/u/app/../../etc/passwd'' \<mapsto> ''root:x:0:0:root:/root:/bin/bash\<newline>'']
     = (Some IndexError, ManagerZadan_init ''/home/u/app'' None, [])"
proof -
  have m: "ManagerZadan_init ''/home/u/app'' None = przyklad_manager\<lparr>zadania := []\<rparr>"
    by (simp add: ManagerZadan_init_def przyklad_manager_def)
  have p: "sprawdz_sciezke (przyklad_manager\<lparr>zadania := []\<rparr>) ''../../etc/passwd''
             = Inr ''/home/u/app/../../etc/passwd''"
    by (simp add: sprawdz_sciezke_def przyklad_manager_def path_join_def commonpath_def
        path_components_def)
  have z: "zadania przyklad_manager = [0]" by (simp add: przyklad_manager_def)
  have n: "normpath_abs ''/home/u/app/../../etc/passwd'' = ''/home/etc/passwd''"
    by (simp add: normpath_abs_def)
  have l: "wczytaj_linie ''root:x:0:0:root:/root:/bin/bash\<newline>'' = Inl IndexError"
    by (simp add: wczytaj_linie_def strip_def is_space_def)
  show ?thesis
    by (simp add: zapisz_do_pliku_def sciezka_poza_katalogiem z przyklad_linia n
        wczytaj_z_pliku_def m p l)
qed

subsection \<open>Loading appends\<close>

lemma wczytaj_linie_po_linii_ok:
  assumes "\<forall>l \<in> set ls. \<exists>z. wczytaj_linie l = Inr z"
  shows "\<exists>zs. wczytaj_linie_po_linii ls m h =
            (None, m\<lparr>zadania := zadania m @ [length h ..< length h + length ls]\<rparr>, h @ zs) \<and>
          map Inr zs = map wczytaj_linie ls"
  using assms
proof (induction ls arbitrary: m h)
  case Nil
  then show ?case by simp
next
  case (Cons l ls)
  from Cons.prems obtain z where z: "wczytaj_linie l = Inr z" by auto
  let ?m = "m\<lparr>zadania := zadania m @ [length h]\<rparr>"
  from Cons.IH [of ?m "h @ [z]"] Cons.prems obtain zs where
    zs: "wczytaj_linie_po_linii ls ?m (h @ [z]) =
           (None, ?m\<lparr>zadania := zadania ?m @ [length (h @ [z]) ..< length (h @ [z]) + length ls]\<rparr>,
            (h @ [z]) @ zs)"
    and mp: "map Inr zs = map wczytaj_linie ls"
    by auto
  have iv: "[length h ..< length h + length (l # ls)]
              = length h # [Suc (length h) ..< Suc (length h) + length ls]"
    by (simp add: upt_conv_Cons del: upt_Suc)
  have "wczytaj_linie_po_linii (l # ls) m h = wczytaj_linie_po_linii ls ?m (h @ [z])"
    using z by simp
  also have "\<dots> = (None, m\<lparr>zadania := zadania m @ [length h ..< length h + length (l # ls)]\<rparr>,
                      h @ (z # zs))"
    unfolding zs iv by simp
  finally show ?case using z mp by (intro exI [of _ "z # zs"]) simp
qed

lemma wczytaj_linie_po_linii_prefix:
  "wczytaj_linie_po_linii ls m h = (e, m', h') \<Longrightarrow>
   take (length (zadania m)) (zadania m') = zadania m \<and> take (length h) h' = h"
proof (induction ls arbitrary: m h)
  case Nil
  then show ?case by simp
next
  case (Cons l ls)
  show ?case
  proof (cases "wczytaj_linie l")
    case (Inl err)
    with Cons.prems show ?thesis by simp
  next
    case (Inr z)
    let ?m = "m\<lparr>zadania := zadania m @ [length h]\<rparr>"
    from Inr Cons.prems have "wczytaj_linie_po_linii ls ?m (h @ [z]) = (e, m', h')" by simp
    from Cons.IH [OF this]
    have a: "take (Suc (length (zadania m))) (zadania m') = zadania m @ [length h]"
      and b: "take (Suc (length h)) h' = h @ [z]" by simp_all
    have "take (length (zadania m)) (take (Suc (length (zadania m))) (zadania m')) = zadania m"
      unfolding a by simp
    moreover have "take (length h) (take (Suc (length h)) h') = h"
      unfolding b by simp
    ultimately show ?thesis by (simp add: min_def)
  qed
qed

text \<open>Whatever the outcome, loading keeps the tasks the manager already holds.\<close>

lemma wczytaj_nie_czysci:
  "wczytaj_z_pliku m nazwa h fs = (e, m', h') \<Longrightarrow>
   take (length (zadania m)) (zadania m') = zadania m \<and> take (length h) h' = h"
  by (auto simp: wczytaj_z_pliku_def split: sum.splits option.splits
      dest: wczytaj_linie_po_linii_prefix)

text \<open>
  C5. When the file is there and each of its M lines is a record the loader accepts,
  loading into a manager of N tasks raises nothing and gives a manager of N + M tasks:
  the N tasks it held, unchanged and first, then one new task per line, in the order of
  the lines.
\<close>

theorem wczytaj_dodaje:
  assumes "sprawdz_sciezke m nazwa = Inr p" and "fs p = Some content"
    and "\<forall>l \<in> set (file_lines (universal_newlines content)). \<exists>z. wczytaj_linie l = Inr z"
    and "wczytaj_z_pliku m nazwa h fs = (e, m', h')"
  shows "e = None \<and>
         length (zadania m') =
           length (zadania m) + length (file_lines (universal_newlines content)) \<and>
         take (length (zadania m)) (zadania m') = zadania m \<and>
         drop (length (zadania m)) (zadania m') =
           [length h ..< length h + length (file_lines (universal_newlines content))] \<and>
         take (length h) h' = h \<and>
         map Inr (drop (length h) h') = map wczytaj_linie (file_lines (universal_newlines content))"
proof -
  let ?ls = "file_lines (universal_newlines content)"
  from wczytaj_linie_po_linii_ok [OF assms(3), of m h] obtain zs where
    r: "wczytaj_linie_po_linii ?ls m h =
          (None, m\<lparr>zadania := zadania m @ [length h ..< length h + length ?ls]\<rparr>, h @ zs)"
    and mp: "map Inr zs = map wczytaj_linie ?ls" by blast
  have "wczytaj_z_pliku m nazwa h fs = wczytaj_linie_po_linii ?ls m h"
    using assms(1,2) by (simp add: wczytaj_z_pliku_def)
  with r assms(4) have "e = None"
    "m' = m\<lparr>zadania := zadania m @ [length h ..< length h + length ?ls]\<rparr>" "h' = h @ zs"
    by simp_all
  then show ?thesis using mp by simp
qed

lemma sciezka_zwykla:
  "sprawdz_sciezke przyklad_manager ''zadania.txt'' = Inr ''/home/u/app/zadania.txt''"
  by (simp add: sprawdz_sciezke_def przyklad_manager_def path_join_def commonpath_def
      path_components_def)

lemma przyklad_plik_linie:
  "file_lines (universal_newlines przyklad_plik) =
     [''Zadanie;Kup mleko;;2025-06-01;wykonane=True\<newline>'',
      ''ZadanieRegularne;Podlej kwiaty;balkon;2025-06-02;pilne=True;powtarzalnosc=co tydzien;wykonane=False\<newline>'']"
  by (simp add: przyklad_plik_def)

lemma przyklad_plik_rekord1:
  "wczytaj_linie ''Zadanie;Kup mleko;;2025-06-01;wykonane=True\<newline>'' =
     Inr \<lparr>cls = Zadanie, tytul = PyStr ''Kup mleko'', opis = PyStr [],
          termin_wykonaia = PyDate \<lparr>year = 2025, month = 6, day = 1\<rparr>,
          wykonane = PyBool True, extra = []\<rparr>"
  by (simp add: wczytaj_linie_def strip_def is_space_def split_pair_def attr_value_def
      strptime_ymd_def is_digit_def digit_val_def match_month_day_def month_alts_def
      match_day_def day_alts_def int_of_digits_def valid_date_def days_in_month_def
      call_klasa_def positional_names_def klasa_of_name_def Zadanie_init_def setattr_def
      dict_set_def parse_termin_def)

lemma przyklad_plik_rekord2:
  "wczytaj_linie ''ZadanieRegularne;Podlej kwiaty;balkon;2025-06-02;pilne=True;powtarzalnosc=co tydzien;wykonane=False\<newline>'' =
     Inr \<lparr>cls = ZadanieRegularne, tytul = PyStr ''Podlej kwiaty'', opis = PyStr ''balkon'',
          termin_wykonaia = PyDate \<lparr>year = 2025, month = 6, day = 2\<rparr>,
          wykonane = PyBool False,
          extra = [(''pilne'', PyBool True), (''powtarzalnosc'', PyStr ''co tydzien'')]\<rparr>"
  by (simp add: wczytaj_linie_def strip_def is_space_def split_pair_def attr_value_def
      strptime_ymd_def is_digit_def digit_val_def match_month_day_def month_alts_def
      match_day_def day_alts_def int_of_digits_def valid_date_def days_in_month_def
      call_klasa_def positional_names_def klasa_of_name_def Zadanie_init_def setattr_def
      dict_set_def ZadanieRegularne_init_def parse_termin_def)

theorem wczytaj_dodaje_witness:
  "fst (wczytaj_z_pliku przyklad_manager ''zadania.txt'' [przyklad_zadanie] przyklad_pliki) = None \<and>
   length (zadania (fst (snd (wczytaj_z_pliku przyklad_manager ''zadania.txt'' [przyklad_zadanie]
                                przyklad_pliki)))) = 3 \<and>
   zadania (fst (snd (wczytaj_z_pliku przyklad_manager ''zadania.txt'' [przyklad_zadanie]
                        przyklad_pliki))) = [0, 1, 2]"
proof -
  let ?r = "wczytaj_z_pliku przyklad_manager ''zadania.txt'' [przyklad_zadanie] przyklad_pliki"
  have 2: "przyklad_pliki ''/home/u/app/zadania.txt'' = Some przyklad_plik"
    by (simp add: przyklad_pliki_def)
  have 3: "\<forall>l \<in> set (file_lines (universal_newlines przyklad_plik)). \<exists>z. wczytaj_linie l = Inr z"
    by (simp add: przyklad_plik_linie przyklad_plik_rekord1 przyklad_plik_rekord2)
  have 4: "?r = (fst ?r, fst (snd ?r), snd (snd ?r))" by simp
  have z: "zadania przyklad_manager = [0]" by (simp add: przyklad_manager_def)
  from wczytaj_dodaje [OF sciezka_zwykla 2 3 4]
  have "fst ?r = None"
    and "length (zadania (fst (snd ?r))) = 3"
    and "take 1 (zadania (fst (snd ?r))) = [0]"
    and "drop 1 (zadania (fst (snd ?r))) = [1, 2]"
    by (simp_all add: przyklad_plik_linie z upt_conv_Cons del: upt_Suc)
  moreover from this(3,4) have "zadania (fst (snd ?r)) = [0] @ [1, 2]"
    by (metis append_take_drop_id)
  ultimately show ?thesis by simp
qed

subsection \<open>Splitting, joining and lines\<close>

lemma split_on_no_sep: "c \<notin> set p \<Longrightarrow> split_on c p = [p]"
  by (induction p) auto

lemma split_on_sep: "c \<notin> set p \<Longrightarrow> split_on c (p @ c # s) = p # split_on c s"
  by (induction p) (auto split: list.splits)

lemma split_on_join:
  "parts \<noteq> [] \<Longrightarrow> \<forall>p \<in> set parts. c \<notin> set p \<Longrightarrow> split_on c (join_with [c] parts) = parts"
proof (induction "[c]" parts rule: join_with.induct)
  case 1
  then show ?case by simp
next
  case (2 p)
  then show ?case by (simp add: split_on_no_sep)
next
  case (3 p q ps)
  then show ?case by (simp add: split_on_sep)
qed

lemma dropWhile_hd: "s \<noteq> [] \<Longrightarrow> \<not> P (hd s) \<Longrightarrow> dropWhile P s = s"
  by (cases s) auto

lemma strip_line:
  assumes "s \<noteq> []" and "\<not> is_space (hd s)" and "\<not> is_space (last s)"
  shows "strip (s @ [CHR 0x0A]) = s"
proof -
  have 1: "dropWhile is_space (s @ [CHR 0x0A]) = s @ [CHR 0x0A]"
    using assms(1,2) by (intro dropWhile_hd) auto
  have nl: "is_space (CHR 0x0A)" by (simp add: is_space_def)
  have "dropWhile is_space (rev s) = rev s"
    using assms(1,3) by (intro dropWhile_hd) (auto simp: hd_rev)
  then have "dropWhile is_space (rev (s @ [CHR 0x0A])) = rev s"
    using nl by simp
  then show ?thesis unfolding strip_def 1 by simp
qed

lemma universal_newlines_id: "CHR 0x0D \<notin> set s \<Longrightarrow> universal_newlines s = s"
  by (induction s rule: universal_newlines.induct) auto

lemma file_lines_line:
  "CHR 0x0A \<notin> set l \<Longrightarrow> file_lines (l @ CHR 0x0A # rest) = (l @ [CHR 0x0A]) # file_lines rest"
  by (induction l) (auto split: list.splits)

lemma file_lines_concat:
  "\<forall>l \<in> set ls. CHR 0x0A \<notin> set l \<Longrightarrow>
   file_lines (concat (map (\<lambda>l. l @ [CHR 0x0A]) ls)) = map (\<lambda>l. l @ [CHR 0x0A]) ls"
  by (induction ls) (auto simp: file_lines_line)

lemma split_pair_join:
  "CHR ''='' \<notin> set k \<Longrightarrow> split_pair (k @ CHR ''='' # v) = Inr (k, v)"
proof -
  assume k: "CHR ''='' \<notin> set k"
  then have "takeWhile (\<lambda>c. c \<noteq> CHR ''='') (k @ CHR ''='' # v) = k"
    by (induction k) auto
  moreover from k have "dropWhile (\<lambda>c. c \<noteq> CHR ''='') (k @ CHR ''='' # v) = CHR ''='' # v"
    by (induction k) auto
  ultimately show ?thesis by (simp add: split_pair_def)
qed

subsection \<open>Dates as text\<close>

lemma lt10_cases:
  "j < 10 \<Longrightarrow> j = 0 \<or> j = 1 \<or> j = 2 \<or> j = 3 \<or> j = 4 \<or> j = 5 \<or> j = 6 \<or> j = 7 \<or> j = 8 \<or> j = (9::nat)"
  by arith

lemma digit_val_lt10:
  assumes "j < 10" shows "digit_val (digit_char j) = Some j"
  using lt10_cases [OF assms] by (elim disjE) (simp_all add: digit_char_def digit_val_def)

lemma digit_char_mod: "digit_char (n mod 10) = digit_char n"
  by (simp add: digit_char_def)

lemma digit_val_digit_char: "digit_val (digit_char k) = Some (k mod 10)"
  using digit_val_lt10 [of "k mod 10"] by (simp add: digit_char_mod)

lemma is_digit_digit_char: "is_digit (digit_char k)"
  by (simp add: is_digit_def digit_val_digit_char)

lemma show_nat_lt10: "n < 10 \<Longrightarrow> show_nat n = [digit_char n]"
  by simp

lemma show_nat_ge10: "10 \<le> n \<Longrightarrow> show_nat n = show_nat (n div 10) @ [digit_char n]"
  using show_nat.simps [of n] by (simp add: digit_char_mod del: show_nat.simps)

lemma zfill2: 
  assumes "n < 100" shows "zfill 2 (show_nat n) = [digit_char (n div 10), digit_char n]"
proof (cases "n < 10")
  case True
  then have "n div 10 = 0" by simp
  then show ?thesis using True
    by (simp add: show_nat_lt10 zfill_def digit_char_def del: show_nat.simps)
next
  case False
  then have "n div 10 < 10" using assms by simp
  then show ?thesis using False
    by (simp add: show_nat_ge10 show_nat_lt10 zfill_def del: show_nat.simps)
qed

lemma zfill4:
  assumes "n < 10000"
  shows "zfill 4 (show_nat n) =
           [digit_char (n div 1000), digit_char (n div 100), digit_char (n div 10), digit_char n]"
proof -
  have d0: "digit_char 0 = CHR ''0''" by (simp add: digit_char_def)
  consider "n < 10" | "10 \<le> n" "n < 100" | "100 \<le> n" "n < 1000" | "1000 \<le> n" by linarith
  then show ?thesis
  proof cases
    case 1
    then have "n div 1000 = 0" "n div 100 = 0" "n div 10 = 0" by simp_all
    then show ?thesis using 1
      by (simp add: show_nat_lt10 zfill_def d0 numeral_3_eq_3 numeral_2_eq_2 del: show_nat.simps)
  next
    case 2
    then have "n div 1000 = 0" "n div 100 = 0" "n div 10 < 10" by simp_all
    then show ?thesis using 2
      by (simp add: show_nat_ge10 show_nat_lt10 zfill_def d0 numeral_3_eq_3 numeral_2_eq_2 del: show_nat.simps)
  next
    case 3
    then have "n div 1000 = 0" "n div 10 div 10 = n div 100" "n div 100 < 10" "10 \<le> n div 10"
      "10 \<le> n"
      by (simp_all add: div_mult2_eq [symmetric])
    then show ?thesis
      by (simp add: show_nat_ge10 show_nat_lt10 zfill_def d0 numeral_3_eq_3 numeral_2_eq_2 del: show_nat.simps)
  next
    case 4
    then have "n div 10 div 10 = n div 100" "n div 100 div 10 = n div 1000" "n div 1000 < 10"
      "10 \<le> n div 100" "10 \<le> n div 10" "10 \<le> n"
      using assms by (simp_all add: div_mult2_eq [symmetric])
    then show ?thesis
      by (simp add: show_nat_ge10 show_nat_lt10 zfill_def del: show_nat.simps)
  qed
qed

lemma decimal4:
  assumes "n < 10000"
  shows "((n div 1000 mod 10 * 10 + n div 100 mod 10) * 10 + n div 10 mod 10) * 10 + n mod 10
           = (n::nat)"
proof -
  define a where "a = n div 1000"
  define b where "b = n div 100 mod 10"
  define c where "c = n div 10 mod 10"
  define d where "d = n mod 10"
  define q1 where "q1 = n div 10"
  define q2 where "q2 = n div 100"
  have 1: "n = 10 * q1 + d" unfolding q1_def d_def by simp
  have "q1 div 10 = q2" unfolding q1_def q2_def by (simp add: div_mult2_eq [symmetric])
  then have 2: "q1 = 10 * q2 + c" unfolding c_def q1_def [symmetric]
    using div_mult_mod_eq [of q1 10] by simp
  have "q2 div 10 = a" unfolding q2_def a_def by (simp add: div_mult2_eq [symmetric])
  then have 3: "q2 = 10 * a + b" unfolding b_def q2_def [symmetric]
    using div_mult_mod_eq [of q2 10] by simp
  have "a < 10" unfolding a_def using assms by simp
  then have 4: "a mod 10 = a" by simp
  have "((a mod 10 * 10 + b) * 10 + c) * 10 + d = n"
    unfolding 4 by (simp add: 1 2 3 algebra_simps)
  then show ?thesis unfolding a_def b_def c_def d_def .
qed

lemma int_of_digits4:
  "n < 10000 \<Longrightarrow>
   int_of_digits [digit_char (n div 1000), digit_char (n div 100), digit_char (n div 10),
                  digit_char n] = n"
  using decimal4 [of n] by (simp add: int_of_digits_def digit_val_digit_char mult.commute)

lemma int_of_digits2:
  "n < 100 \<Longrightarrow> int_of_digits [digit_char (n div 10), digit_char n] = n"
  by (simp add: int_of_digits_def digit_val_digit_char)

lemma month_cases:
  "1 \<le> m \<Longrightarrow> m \<le> 12 \<Longrightarrow>
   m = 1 \<or> m = 2 \<or> m = 3 \<or> m = 4 \<or> m = 5 \<or> m = 6 \<or> m = 7 \<or> m = 8 \<or> m = 9 \<or> m = 10 \<or>
   m = 11 \<or> m = (12::nat)"
  by arith

lemma day_cases:
  "1 \<le> d \<Longrightarrow> d \<le> 31 \<Longrightarrow>
   d = 1 \<or> d = 2 \<or> d = 3 \<or> d = 4 \<or> d = 5 \<or> d = 6 \<or> d = 7 \<or> d = 8 \<or> d = 9 \<or> d = 10 \<or>
   d = 11 \<or> d = 12 \<or> d = 13 \<or> d = 14 \<or> d = 15 \<or> d = 16 \<or> d = 17 \<or> d = 18 \<or> d = 19 \<or>
   d = 20 \<or> d = 21 \<or> d = 22 \<or> d = 23 \<or> d = 24 \<or> d = 25 \<or> d = 26 \<or> d = 27 \<or> d = 28 \<or>
   d = 29 \<or> d = 30 \<or> d = (31::nat)"
  by arith

lemma match_day_iso:
  assumes "1 \<le> d" and "d \<le> 31"
  shows "match_day (zfill 2 (show_nat d)) = Some (zfill 2 (show_nat d), [])"
  using day_cases [OF assms]
  by (elim disjE)
    (simp_all add: match_day_def day_alts_def zfill_def digit_char_def is_digit_def digit_val_def)

lemma match_month_iso:
  assumes "1 \<le> m" and "m \<le> 12"
  shows "match_month_day (zfill 2 (show_nat m) @ CHR ''-'' # dd) =
           (case match_day dd of Some (d, rest) \<Rightarrow> Some (zfill 2 (show_nat m), d, rest)
            | None \<Rightarrow> None)"
  using month_cases [OF assms]
  by (elim disjE)
    (simp_all add: match_month_day_def month_alts_def zfill_def digit_char_def
      split: option.splits)

lemma days_in_month_le: "days_in_month y m \<le> 31"
  by (simp add: days_in_month_def)

text \<open>Parsing the text of a date of the calendar gives the date back.\<close>

lemma strptime_isoformat:
  assumes "valid_date d"
  shows "strptime_ymd (isoformat d) = Some d"
proof -
  from assms have y: "year d < 10000" and m: "1 \<le> month d" "month d \<le> 12"
    and dd: "1 \<le> day d" "day d \<le> 31"
    using days_in_month_le [of "year d" "month d"] by (auto simp: valid_date_def)
  have m2: "month d < 100" and d2: "day d < 100" using m dd by simp_all
  have im: "int_of_digits (zfill 2 (show_nat (month d))) = month d"
    using m2 by (simp add: zfill2 int_of_digits2 del: show_nat.simps)
  have id: "int_of_digits (zfill 2 (show_nat (day d))) = day d"
    using d2 by (simp add: zfill2 int_of_digits2 del: show_nat.simps)
  have mm: "match_month_day (zfill 2 (show_nat (month d)) @ CHR ''-'' # zfill 2 (show_nat (day d)))
              = Some (zfill 2 (show_nat (month d)), zfill 2 (show_nat (day d)), [])"
    by (simp add: match_month_iso [OF m] match_day_iso [OF dd] del: show_nat.simps)
  have rec: "\<lparr>year = year d, month = month d, day = day d\<rparr> = d" by simp
  show ?thesis
    unfolding isoformat_def zfill4 [OF y]
    by (simp add: strptime_ymd_def is_digit_digit_char mm int_of_digits4 [OF y] im id rec assms
        del: show_nat.simps)
qed

subsection \<open>Attributes through the codec\<close>

lemma update_fresh: "k \<notin> fst ` set al \<Longrightarrow> AList.update k v al = al @ [(k, v)]"
  by (induction al) auto

lemma attr_value_py_str: "wartosc_ok v \<Longrightarrow> attr_value (py_str v) = v"
  by (cases v) (auto simp: attr_value_def)

lemma attrs_of_pary:
  assumes "distinct (map fst (acc @ kvs))"
    and "\<forall>kv \<in> set kvs. CHR ''='' \<notin> set (fst kv) \<and> wartosc_ok (snd kv)"
  shows "attrs_of (map para kvs @ rest) acc = attrs_of rest (acc @ kvs)"
  using assms
proof (induction kvs arbitrary: acc)
  case Nil
  then show ?case by simp
next
  case (Cons kv kvs)
  obtain k v where kv: "kv = (k, v)" by (cases kv)
  from Cons.prems kv have fresh: "k \<notin> fst ` set acc" and eq: "CHR ''='' \<notin> set k"
    and ok: "wartosc_ok v" by auto
  have d: "distinct (map fst ((acc @ [(k, v)]) @ kvs))" using Cons.prems kv by simp
  have "attrs_of (map para (kv # kvs) @ rest) acc
          = attrs_of (map para kvs @ rest) (acc @ [(k, v)])"
    using kv by (simp add: para_def split_pair_join [OF eq] attr_value_py_str [OF ok]
        update_fresh [OF fresh])
  also have "\<dots> = attrs_of rest ((acc @ [(k, v)]) @ kvs)"
    by (rule Cons.IH [OF d]) (use Cons.prems in auto)
  finally show ?case using kv by simp
qed

lemma dict_sets_append: "dict_sets z (a @ b) = dict_sets (dict_sets z a) b"
  by (induction z a rule: dict_sets.induct) auto

lemma dict_set_extra:
  "k \<notin> set core_names \<Longrightarrow> k \<notin> fst ` set (extra z) \<Longrightarrow>
   dict_set z k v = z\<lparr>extra := extra z @ [(k, v)]\<rparr>"
  by (simp add: dict_set_def core_names_def update_fresh)

lemma dict_sets_extra:
  assumes "distinct (map fst kw)" and "\<forall>k \<in> fst ` set kw. k \<notin> set core_names"
    and "fst ` set kw \<inter> fst ` set (extra z) = {}"
  shows "dict_sets z kw = z\<lparr>extra := extra z @ kw\<rparr>"
  using assms
proof (induction z kw rule: dict_sets.induct)
  case (1 z)
  then show ?case by simp
next
  case (2 z k v kwargs)
  have s: "dict_set z k v = z\<lparr>extra := extra z @ [(k, v)]\<rparr>"
    by (rule dict_set_extra) (use 2 in auto)
  have "dict_sets (dict_set z k v) kwargs
          = (dict_set z k v)\<lparr>extra := extra (dict_set z k v) @ kwargs\<rparr>"
    by (rule "2.IH") (use 2 s in auto)
  then show ?case by (simp add: s)
qed

lemma digit_char_tekst:
  "digit_char k \<noteq> CHR '';''" "digit_char k \<noteq> CHR 0x0A" "digit_char k \<noteq> CHR 0x0D"
proof -
  have "k mod 10 < 10" by simp
  from lt10_cases [OF this]
  show "digit_char k \<noteq> CHR '';''" "digit_char k \<noteq> CHR 0x0A" "digit_char k \<noteq> CHR 0x0D"
    by (auto simp: digit_char_def)
qed

lemma tekst_pola_isoformat: "valid_date d \<Longrightarrow> tekst_pola (isoformat d)"
proof -
  assume v: "valid_date d"
  then have "year d < 10000" "month d < 100" "day d < 100"
    using days_in_month_le [of "year d" "month d"] by (auto simp: valid_date_def)
  then show ?thesis
    by (simp add: isoformat_def zfill4 zfill2 tekst_pola_def digit_char_tekst
        digit_char_tekst [symmetric] del: show_nat.simps)
qed

lemma tekst_pola_klasa_name: "tekst_pola (klasa_name c)"
  by (cases c) (simp_all add: tekst_pola_def)

lemma tekst_pola_py_str: "wartosc_ok v \<Longrightarrow> tekst_pola (py_str v)"
  by (cases v) (auto simp: tekst_pola_def)

lemma tekst_pola_para: "tekst_pola (fst kv) \<Longrightarrow> wartosc_ok (snd kv) \<Longrightarrow> tekst_pola (para kv)"
  using tekst_pola_py_str [of "snd kv"] by (auto simp: para_def tekst_pola_def)

lemma tekst_pola_join:
  "\<forall>p \<in> set parts. tekst_pola p \<Longrightarrow>
   CHR 0x0A \<notin> set (join_with '';'' parts) \<and> CHR 0x0D \<notin> set (join_with '';'' parts)"
  by (induction "'';''" parts rule: join_with.induct) (auto simp: tekst_pola_def)

lemma join_with_last_nonempty: "ps \<noteq> [] \<Longrightarrow> last ps \<noteq> [] \<Longrightarrow> join_with sep ps \<noteq> []"
  by (induction sep ps rule: join_with.induct) auto

lemma last_join_with:
  "ps \<noteq> [] \<Longrightarrow> last ps \<noteq> [] \<Longrightarrow> last (join_with sep ps) = last (last ps)"
proof (induction sep ps rule: join_with.induct)
  case (3 sep p q ps)
  then have "join_with sep (q # ps) \<noteq> []" by (intro join_with_last_nonempty) auto
  then show ?case using 3 by auto
qed auto

lemma map_of_filter_None: "map_of (filter (\<lambda>kv. fst kv \<noteq> f) al) f = None"
  by (induction al) auto

lemma map_of_move_last:
  "map_of al f = Some p \<Longrightarrow> map_of (filter (\<lambda>kv. fst kv \<noteq> f) al @ [(f, p)]) = map_of al"
proof
  fix k
  assume "map_of al f = Some p"
  then show "map_of (filter (\<lambda>kv. fst kv \<noteq> f) al @ [(f, p)]) k = map_of al k"
    by (cases "k = f")
      (auto simp: map_add_def map_of_filter_None map_of_filter_key split: option.splits)
qed

lemma dict_sets_z_wykonane:
  assumes "extra z = []" and "distinct (map fst kw)"
    and "\<forall>k \<in> fst ` set kw. k \<notin> set core_names"
  shows "dict_sets z (kw @ [(''wykonane'', v)]) = z\<lparr>wykonane := v, extra := kw\<rparr>"
proof -
  have "dict_sets z kw = z\<lparr>extra := extra z @ kw\<rparr>"
    by (rule dict_sets_extra) (use assms in auto)
  then show ?thesis using assms(1) by (simp add: dict_sets_append dict_set_def)
qed

lemma klucz_ok_not_core: "klucz_ok k \<Longrightarrow> k \<notin> set core_names"
  by (auto simp: klucz_ok_def core_names_def)

lemma klucz_ok_not_positional: "klucz_ok k \<Longrightarrow> k \<notin> set positional_names"
  by (auto simp: klucz_ok_def positional_names_def)

lemma podklasa_init:
  assumes "extra z = []" and "distinct (map fst al)" and "\<forall>k \<in> fst ` set al. klucz_ok k"
    and "map_of al f = Some p" and "f \<noteq> ''wykonane''"
  shows "dict_set (dict_sets z (filter (\<lambda>kv. fst kv \<noteq> f) (al @ [(''wykonane'', v)]))) f p
           = z\<lparr>wykonane := v, extra := filter (\<lambda>kv. fst kv \<noteq> f) al @ [(f, p)]\<rparr>"
proof -
  let ?F = "filter (\<lambda>kv. fst kv \<noteq> f) al"
  from assms(4) have "(f, p) \<in> set al" by (rule map_of_SomeD)
  then have kf: "klucz_ok f" using assms(3) by force
  have "dict_sets z (?F @ [(''wykonane'', v)]) = z\<lparr>wykonane := v, extra := ?F\<rparr>"
    by (rule dict_sets_z_wykonane)
      (use assms in \<open>auto simp: distinct_map_filter klucz_ok_not_core\<close>)
  moreover have "f \<notin> fst ` set ?F" by auto
  ultimately show ?thesis
    using assms(5) klucz_ok_not_core [OF kf]
    by (simp add: dict_set_extra)
qed

lemma setattrs_klucz_ok:
  assumes "\<forall>k \<in> fst ` set al. klucz_ok k"
  shows "setattrs z (al @ [(''wykonane'', v)]) = (None, dict_sets z (al @ [(''wykonane'', v)]))"
    and "setattrs z (filter P al @ [(''wykonane'', v)])
           = (None, dict_sets z (filter P al @ [(''wykonane'', v)]))"
  by (rule setattrs_ok, use assms in \<open>auto simp: klucz_ok_def data_descriptors_def\<close>)+

lemma call_klasa_zapisane:
  assumes "distinct (map fst al)" and "\<forall>k \<in> fst ` set al. klucz_ok k"
    and "list_all (\<lambda>f. f \<in> fst ` set al) (pola_klasy c)"
  shows "\<exists>z'. call_klasa c t d (PyDate dt) (al @ [(''wykonane'', v)]) = Inr z' \<and>
              cls z' = c \<and> tytul z' = t \<and> opis z' = d \<and> termin_wykonaia z' = PyDate dt \<and>
              wykonane z' = v \<and> map_of (extra z') = map_of al"
proof -
  let ?A = "al @ [(''wykonane'', v)]"
  let ?z0 = "\<lparr>cls = c, tytul = t, opis = d, termin_wykonaia = PyDate dt,
              wykonane = PyBool False, extra = []\<rparr>"
  have pos: "\<not> list_ex (\<lambda>k. k \<in> set positional_names) (map fst ?A)"
    using assms(2) klucz_ok_not_positional
    by (auto simp: list_ex_iff positional_names_def)
  show ?thesis
  proof (cases c)
    case Zadanie
    have "dict_sets ?z0 ?A = ?z0\<lparr>wykonane := v, extra := al\<rparr>"
      by (rule dict_sets_z_wykonane) (use assms klucz_ok_not_core in auto)
    then show ?thesis using pos Zadanie
      by (simp add: call_klasa_def Zadanie_init_def parse_termin_def
          setattrs_klucz_ok [OF assms(2)])
  next
    case ZadaniePiorytetowe
    with assms(3) obtain p where p: "map_of al ''priorytet'' = Some p"
      by (auto simp: image_iff dest!: weak_map_of_SomeI)
    have "dict_set (dict_sets ?z0 (filter (\<lambda>kv. fst kv \<noteq> ''priorytet'') ?A)) ''priorytet'' p
            = ?z0\<lparr>wykonane := v, extra := filter (\<lambda>kv. fst kv \<noteq> ''priorytet'') al @ [(''priorytet'', p)]\<rparr>"
      by (rule podklasa_init) (use assms p in auto)
    then show ?thesis using pos ZadaniePiorytetowe p map_of_move_last [OF p]
      by (simp add: call_klasa_def ZadaniePiorytetowe_init_def Zadanie_init_def
          parse_termin_def setattrs_klucz_ok [OF assms(2)] setattr_def)
  next
    case ZadanieRegularne
    with assms(3) obtain p where p: "map_of al ''powtarzalnosc'' = Some p"
      by (auto simp: image_iff dest!: weak_map_of_SomeI)
    have "dict_set (dict_sets ?z0 (filter (\<lambda>kv. fst kv \<noteq> ''powtarzalnosc'') ?A)) ''powtarzalnosc'' p
            = ?z0\<lparr>wykonane := v, extra := filter (\<lambda>kv. fst kv \<noteq> ''powtarzalnosc'') al @ [(''powtarzalnosc'', p)]\<rparr>"
      by (rule podklasa_init) (use assms p in auto)
    then show ?thesis using pos ZadanieRegularne p map_of_move_last [OF p]
      by (simp add: call_klasa_def ZadanieRegularne_init_def Zadanie_init_def
          parse_termin_def setattrs_klucz_ok [OF assms(2)] setattr_def)
  qed
qed

lemma klasa_of_name_klasa_name: "klasa_of_name (klasa_name c) = c"
  by (cases c) (simp_all add: klasa_of_name_def)

lemma is_tekstE: "is_tekst v \<Longrightarrow> \<exists>s. v = PyStr s \<and> tekst_pola s"
  by (cases v) auto

lemma is_dataE: "is_data v \<Longrightarrow> \<exists>d. v = PyDate d \<and> valid_date d"
  by (cases v) auto

lemma is_boolE: "is_bool v \<Longrightarrow> \<exists>b. v = PyBool b"
  by (cases v) auto

lemma para_case: "(\<lambda>(k, v). k @ CHR ''='' # py_str v) = para"
  by (auto simp: para_def fun_eq_iff)

text \<open>The line written for a task is read back as a task that agrees with it.\<close>

lemma linia_wczytana:
  assumes "zapisywalne z"
  shows "\<exists>b z'. linia_zadania z = Inr (b @ [CHR 0x0A]) \<and> CHR 0x0A \<notin> set b \<and>
                CHR 0x0D \<notin> set b \<and> wczytaj_linie (b @ [CHR 0x0A]) = Inr z' \<and> zgodne z z'"
proof -
  from assms obtain t d dt bb where
    t: "tytul z = PyStr t" "tekst_pola t" and d: "opis z = PyStr d" "tekst_pola d"
    and dt: "termin_wykonaia z = PyDate dt" "valid_date dt" and bb: "wykonane z = PyBool bb"
    unfolding zapisywalne_def by (blast dest: is_tekstE is_dataE is_boolE)
  from assms have dist: "distinct (map fst (extra z))"
    and ok: "\<forall>kv \<in> set (extra z). klucz_ok (fst kv) \<and> wartosc_ok (snd kv)"
    and pola: "list_all (\<lambda>f. f \<in> fst ` set (extra z)) (pola_klasy (cls z))"
    unfolding zapisywalne_def by (auto simp: list_all_iff)
  define A where "A = extra z @ [(''wykonane'', PyBool bb)]"
  define parts where "parts = [klasa_name (cls z), t, d, isoformat dt] @ map para A"
  define b where "b = join_with '';'' parts"
  have wyk: "''wykonane'' \<notin> fst ` set (extra z)"
    using ok by (auto simp: klucz_ok_def)
  have pw: "para (''wykonane'', PyBool bb) = ''wykonane='' @ (if bb then ''True'' else ''False'')"
    by (simp add: para_def)
  have l: "linia_zadania z = Inr (b @ [CHR 0x0A])"
    unfolding b_def parts_def A_def
    by (simp add: linia_zadania_def t d dt bb para_case pw)
  have tp: "\<forall>p \<in> set parts. tekst_pola p"
    unfolding parts_def A_def using t d dt ok
    by (auto simp: tekst_pola_klasa_name tekst_pola_isoformat klucz_ok_def
        intro!: tekst_pola_para) (simp_all add: para_def tekst_pola_def)
  then have nonl: "CHR 0x0A \<notin> set b" "CHR 0x0D \<notin> set b"
    unfolding b_def using tekst_pola_join [of parts] by blast+
  have ne: "b \<noteq> []" unfolding b_def parts_def by (cases "cls z") simp_all
  have h: "hd b = CHR ''Z''" unfolding b_def parts_def by (cases "cls z") simp_all
  have lp: "last parts = ''wykonane='' @ (if bb then ''True'' else ''False'')"
    unfolding parts_def A_def by (simp add: para_def)
  have "last b = last (last parts)"
    unfolding b_def by (rule last_join_with) (simp_all add: lp, simp add: parts_def)
  then have la: "last b = CHR ''e''" unfolding lp by simp
  have st: "strip (b @ [CHR 0x0A]) = b"
    by (rule strip_line [OF ne]) (simp_all add: h la is_space_def)
  have "\<forall>p \<in> set parts. CHR '';'' \<notin> set p" using tp by (simp add: tekst_pola_def)
  moreover have "parts \<noteq> []" by (simp add: parts_def)
  ultimately have "split_on (CHR '';'') (join_with [CHR '';''] parts) = parts"
    by (intro split_on_join)
  then have sp: "split_on (CHR '';'') b = klasa_name (cls z) # t # d # isoformat dt # map para A"
    by (simp add: b_def) (simp add: parts_def)
  have "attrs_of (map para A @ []) [] = attrs_of [] ([] @ A)"
    by (rule attrs_of_pary) (use dist ok wyk in \<open>auto simp: klucz_ok_def A_def\<close>)
  then have at: "attrs_of (map para A) [] = Inr A" by simp
  have sd: "strptime_ymd (isoformat dt) = Some dt" by (rule strptime_isoformat [OF dt(2)])
  from call_klasa_zapisane [OF dist _ pola, of "PyStr t" "PyStr d" dt "PyBool bb"] ok
  obtain z' where ck: "call_klasa (cls z) (PyStr t) (PyStr d) (PyDate dt) A = Inr z'"
    and z': "cls z' = cls z" "tytul z' = PyStr t" "opis z' = PyStr d"
      "termin_wykonaia z' = PyDate dt" "wykonane z' = PyBool bb"
      "map_of (extra z') = map_of (extra z)"
    unfolding A_def by auto
  from wyk have "map_of (extra z) ''wykonane'' = None" by (simp add: map_of_eq_None_iff)
  then have mw: "map_of A ''wykonane'' = Some (PyBool bb)"
    unfolding A_def by (simp add: map_add_def)
  let ?z = "if bb then z'\<lparr>wykonane := PyBool True\<rparr> else z'"
  have "wczytaj_linie (b @ [CHR 0x0A]) = Inr ?z"
    unfolding wczytaj_linie_def st sp
    using at sd ck mw by (simp add: klasa_of_name_klasa_name)
  moreover have "zgodne z ?z" using z' t d dt bb by (simp add: zgodne_def)
  ultimately show ?thesis using l nonl by blast
qed

subsection \<open>Saving and loading back\<close>

lemma zapisz_zadania_ok:
  assumes "\<forall>z \<in> set zs. zapisywalne z"
  shows "\<exists>bs zs'. zapisz_zadania zs out = (None, out @ concat (map (\<lambda>b. b @ [CHR 0x0A]) bs)) \<and>
           (\<forall>b \<in> set bs. CHR 0x0A \<notin> set b \<and> CHR 0x0D \<notin> set b) \<and>
           map wczytaj_linie (map (\<lambda>b. b @ [CHR 0x0A]) bs) = map Inr zs' \<and>
           list_all2 zgodne zs zs'"
  using assms
proof (induction zs arbitrary: out)
  case Nil
  show ?case by (intro exI [of _ "[]"]) simp
next
  case (Cons z zs)
  from Cons.prems have "zapisywalne z" by simp
  from linia_wczytana [OF this] obtain b z' where
    l: "linia_zadania z = Inr (b @ [CHR 0x0A])" and nl: "CHR 0x0A \<notin> set b" "CHR 0x0D \<notin> set b"
    and w: "wczytaj_linie (b @ [CHR 0x0A]) = Inr z'" and g: "zgodne z z'"
    by blast
  from Cons.IH [of "out @ b @ [CHR 0x0A]"] Cons.prems obtain bs zs' where
    r: "zapisz_zadania zs (out @ b @ [CHR 0x0A]) =
          (None, (out @ b @ [CHR 0x0A]) @ concat (map (\<lambda>b. b @ [CHR 0x0A]) bs))"
    and c: "\<forall>b \<in> set bs. CHR 0x0A \<notin> set b \<and> CHR 0x0D \<notin> set b"
    and p: "map wczytaj_linie (map (\<lambda>b. b @ [CHR 0x0A]) bs) = map Inr zs'"
    and a: "list_all2 zgodne zs zs'"
    by auto
  show ?case
    by (intro exI [of _ "b # bs"] exI [of _ "z' # zs'"]) (use l nl w g r c p a in simp)
qed

lemma sprawdz_sciezke_save_dir:
  "save_dir m0 = save_dir m \<Longrightarrow> sprawdz_sciezke m0 nazwa = sprawdz_sciezke m nazwa"
  unfolding sprawdz_sciezke_def by (erule subst) (rule refl)

text \<open>
  C1 (as amended). Take a manager whose tasks, of any of the three classes, each have a
  title and a description that are texts without \<^verbatim>\<open>;\<close> and line breaks, a due date
  that is a calendar date, a boolean done flag, and other attributes whose keys are
  texts without \<^verbatim>\<open>;\<close>, \<^verbatim>\<open>=\<close> and line breaks and not the name of a positional
  constructor parameter (nor \<^verbatim>\<open>__class__\<close>, \<^verbatim>\<open>__dict__\<close> or \<^verbatim>\<open>__weakref__\<close>,
  names no task has as an attribute), and whose values are booleans or texts without
  \<^verbatim>\<open>;\<close> and line breaks other than \<^verbatim>\<open>True\<close> and \<^verbatim>\<open>False\<close>. When the file name passes the
  path check, saving raises nothing, loading the file into a manager of the same
  directory that holds no task raises nothing, and that manager then holds as many
  tasks, the i-th with the class, title, description, due date, done flag and attribute
  mapping of the i-th task saved.
\<close>

theorem zapis_i_odczyt:
  assumes "\<forall>r \<in> set (zadania m). zapisywalne (h ! r)"
    and "sprawdz_sciezke m nazwa = Inr p"
    and "save_dir m0 = save_dir m" and "zadania m0 = []"
    and "zapisz_do_pliku m nazwa h fs = (e1, fs1)"
    and "wczytaj_z_pliku m0 nazwa h0 fs1 = (e2, m2, h2)"
  shows "e1 = None \<and> e2 = None \<and> length (zadania m2) = length (zadania m) \<and>
         (\<forall>i < length (zadania m). zgodne (h ! (zadania m ! i)) (h2 ! (zadania m2 ! i)))"
proof -
  let ?zs = "map (\<lambda>r. h ! r) (zadania m)"
  have "\<forall>z \<in> set ?zs. zapisywalne z" using assms(1) by simp
  from zapisz_zadania_ok [OF this, of "[]"] obtain bs zs' where
    sv: "zapisz_zadania ?zs [] = (None, concat (map (\<lambda>b. b @ [CHR 0x0A]) bs))"
    and c: "\<forall>b \<in> set bs. CHR 0x0A \<notin> set b \<and> CHR 0x0D \<notin> set b"
    and pr: "map wczytaj_linie (map (\<lambda>b. b @ [CHR 0x0A]) bs) = map Inr zs'"
    and al: "list_all2 zgodne ?zs zs'"
    by auto
  let ?ls = "map (\<lambda>b. b @ [CHR 0x0A]) bs"
  let ?content = "concat ?ls"
  from sv assms(2,5) have e1: "e1 = None" and fs1: "fs1 = fs(p \<mapsto> ?content)"
    by (simp_all add: zapisz_do_pliku_def)
  have "CHR 0x0D \<notin> set ?content" using c by auto
  then have "universal_newlines ?content = ?content" by (rule universal_newlines_id)
  moreover have "file_lines ?content = ?ls" using c by (intro file_lines_concat) simp
  ultimately have fl: "file_lines (universal_newlines ?content) = ?ls" by simp
  have ok: "\<forall>l \<in> set ?ls. \<exists>z. wczytaj_linie l = Inr z"
  proof
    fix l assume "l \<in> set ?ls"
    then obtain i where "i < length ?ls" "l = ?ls ! i" by (auto simp: in_set_conv_nth)
    then have "wczytaj_linie l = map wczytaj_linie ?ls ! i" by simp
    also have "\<dots> = map Inr zs' ! i" by (simp only: pr)
    finally show "\<exists>z. wczytaj_linie l = Inr z"
      using \<open>i < length ?ls\<close> pr by (metis length_map nth_map)
  qed
  from wczytaj_linie_po_linii_ok [OF ok, of m0 h0] obtain ws where
    ld: "wczytaj_linie_po_linii ?ls m0 h0 =
           (None, m0\<lparr>zadania := zadania m0 @ [length h0 ..< length h0 + length ?ls]\<rparr>, h0 @ ws)"
    and wm: "map Inr ws = map wczytaj_linie ?ls" by blast
  from wm pr have "map Inr ws = (map Inr zs' :: (error + zadanie_obj) list)" by simp
  then have ws: "ws = zs'" by simp
  have "sprawdz_sciezke m0 nazwa = Inr p"
    using sprawdz_sciezke_save_dir [OF assms(3), of nazwa] assms(2) by simp
  then have "wczytaj_z_pliku m0 nazwa h0 fs1 = wczytaj_linie_po_linii ?ls m0 h0"
    using fl by (simp add: wczytaj_z_pliku_def fs1)
  with ld assms(6) have e2: "e2 = None"
    and m2: "m2 = m0\<lparr>zadania := zadania m0 @ [length h0 ..< length h0 + length ?ls]\<rparr>"
    and h2: "h2 = h0 @ ws" by simp_all
  have len: "length zs' = length (zadania m)" using al by (simp add: list_all2_lengthD [symmetric])
  have lbs: "length bs = length (zadania m)"
    using pr len by (metis length_map)
  have z2: "zadania m2 = [length h0 ..< length h0 + length (zadania m)]"
    using m2 assms(4) lbs by simp
  have "zgodne (h ! (zadania m ! i)) (h2 ! (zadania m2 ! i))" if "i < length (zadania m)" for i
  proof -
    have "i < length ?zs" using that by simp
    from list_all2_nthD [OF al this] that
    have "zgodne (h ! (zadania m ! i)) (zs' ! i)" by simp
    moreover have "zadania m2 ! i = length h0 + i" using that z2 by simp
    moreover have "h2 ! (length h0 + i) = zs' ! i" using h2 ws by simp
    ultimately show ?thesis by simp
  qed
  then show ?thesis using e1 e2 z2 by simp
qed

lemma zadanie_zwykle_simps:
  "cls zadanie_zwykle = Zadanie" "tytul zadanie_zwykle = PyStr ''Kup mleko''"
  "opis zadanie_zwykle = PyStr []"
  "termin_wykonaia zadanie_zwykle = PyDate \<lparr>year = 2025, month = 6, day = 1\<rparr>"
  "wykonane zadanie_zwykle = PyBool False"
  "extra zadanie_zwykle = [(''kategoria'', PyStr ''Dom'')]"
  by (simp_all add: zadanie_zwykle_def Zadanie_init_def dict_set_def parse_termin_def)

lemma zadanie_regularne_simps:
  "cls zadanie_regularne = ZadanieRegularne" "tytul zadanie_regularne = PyStr ''Podlej kwiaty''"
  "opis zadanie_regularne = PyStr ''balkon''"
  "termin_wykonaia zadanie_regularne = PyDate \<lparr>year = 2025, month = 6, day = 2\<rparr>"
  "wykonane zadanie_regularne = PyBool False"
  "extra zadanie_regularne = [(''pilne'', PyBool True), (''powtarzalnosc'', PyStr ''co tydzien'')]"
  by (simp_all add: zadanie_regularne_def ZadanieRegularne_init_def Zadanie_init_def
      dict_set_def parse_termin_def)

lemma zadanie_bez_terminu_simps:
  "cls zadanie_bez_terminu = Zadanie" "tytul zadanie_bez_terminu = PyStr ''A''"
  "opis zadanie_bez_terminu = PyStr []" "termin_wykonaia zadanie_bez_terminu = PyNone"
  "wykonane zadanie_bez_terminu = PyBool False" "extra zadanie_bez_terminu = []"
  by (simp_all add: zadanie_bez_terminu_def Zadanie_init_def parse_termin_def)

lemma zapisywalne_przyklady:
  "zapisywalne przyklad_zadanie" "zapisywalne zadanie_zwykle" "zapisywalne zadanie_regularne"
  by (simp_all add: zapisywalne_def przyklad_zadanie_simps zadanie_zwykle_simps
      zadanie_regularne_simps tekst_pola_def klucz_ok_def data_descriptors_def valid_date_def
      days_in_month_def)

lemma sciezka_trzech:
  "sprawdz_sciezke manager_trzech ''zadania.txt'' = Inr ''/home/u/app/zadania.txt''"
  by (simp add: sprawdz_sciezke_def manager_trzech_def path_join_def commonpath_def
      path_components_def)

theorem zapis_i_odczyt_witness:
  "fst (zapisz_do_pliku manager_trzech ''zadania.txt'' trzy_klasy Map.empty) = None \<and>
   fst (wczytaj_z_pliku nowy_manager ''zadania.txt'' []
          (snd (zapisz_do_pliku manager_trzech ''zadania.txt'' trzy_klasy Map.empty))) = None \<and>
   length (zadania (fst (snd (wczytaj_z_pliku nowy_manager ''zadania.txt'' []
          (snd (zapisz_do_pliku manager_trzech ''zadania.txt'' trzy_klasy Map.empty)))))) = 3 \<and>
   zgodne zadanie_regularne
     (snd (snd (wczytaj_z_pliku nowy_manager ''zadania.txt'' []
          (snd (zapisz_do_pliku manager_trzech ''zadania.txt'' trzy_klasy Map.empty)))) !
      (zadania (fst (snd (wczytaj_z_pliku nowy_manager ''zadania.txt'' []
          (snd (zapisz_do_pliku manager_trzech ''zadania.txt'' trzy_klasy Map.empty))))) ! 2))"
proof -
  let ?s = "zapisz_do_pliku manager_trzech ''zadania.txt'' trzy_klasy Map.empty"
  let ?l = "wczytaj_z_pliku nowy_manager ''zadania.txt'' [] (snd ?s)"
  have 1: "\<forall>r \<in> set (zadania manager_trzech). zapisywalne (trzy_klasy ! r)"
    by (simp add: manager_trzech_def trzy_klasy_def zapisywalne_przyklady)
  have 3: "save_dir nowy_manager = save_dir manager_trzech"
    by (simp add: nowy_manager_def ManagerZadan_init_def manager_trzech_def)
  have 4: "zadania nowy_manager = []" by (simp add: nowy_manager_def ManagerZadan_init_def)
  have 5: "?s = (fst ?s, snd ?s)" by simp
  have 6: "?l = (fst ?l, fst (snd ?l), snd (snd ?l))" by simp
  note t = zapis_i_odczyt [OF 1 sciezka_trzech 3 4 5 6]
  from t have a: "fst ?s = None" and b: "fst ?l = None"
    and c: "length (zadania (fst (snd ?l))) = length (zadania manager_trzech)"
    and d: "\<forall>i < length (zadania manager_trzech).
              zgodne (trzy_klasy ! (zadania manager_trzech ! i))
                (snd (snd ?l) ! (zadania (fst (snd ?l)) ! i))"
    by blast+
  have z: "zadania manager_trzech = [0, 1, 2]" by (simp add: manager_trzech_def)
  have "(2::nat) < length (zadania manager_trzech)" by (simp add: z)
  with d have "zgodne (trzy_klasy ! (zadania manager_trzech ! 2))
                 (snd (snd ?l) ! (zadania (fst (snd ?l)) ! 2))"
    by blast
  then have e: "zgodne zadanie_regularne (snd (snd ?l) ! (zadania (fst (snd ?l)) ! 2))"
    by (simp add: z trzy_klasy_def)
  from a b c e show ?thesis by (simp add: z)
qed

lemma linia_bez_terminu:
  "linia_zadania zadanie_bez_terminu = Inr ''Zadanie;A;;None;wykonane=False\<newline>''"
  by (simp add: linia_zadania_def zadanie_bez_terminu_simps)

lemma linia_regularne:
  "linia_zadania zadanie_regularne =
     Inr ''ZadanieRegularne;Podlej kwiaty;balkon;2025-06-02;pilne=True;powtarzalnosc=co tydzien;wykonane=False\<newline>''"
  by (simp add: linia_zadania_def zadanie_regularne_simps isoformat_def zfill_def
      digit_char_def)

lemma wczytaj_linie_przyklad:
  "wczytaj_linie ''ZadaniePiorytetowe;Przygotuj raport;Raport kwartalny;2025-05-15;kategoria=Finanse;priorytet=Wysoki;wykonane=False\<newline>''
     = Inr przyklad_zadanie"
  by (simp add: wczytaj_linie_def strip_def is_space_def split_pair_def attr_value_def
      strptime_ymd_def is_digit_def digit_val_def match_month_day_def month_alts_def
      match_day_def day_alts_def int_of_digits_def valid_date_def days_in_month_def
      call_klasa_def positional_names_def klasa_of_name_def przyklad_zadanie_def
      ZadaniePiorytetowe_init_def Zadanie_init_def setattr_def dict_set_def parse_termin_def)

lemma wczytaj_linie_bez_terminu:
  "wczytaj_linie ''Zadanie;A;;None;wykonane=False\<newline>'' = Inl ValueError"
  by (simp add: wczytaj_linie_def strip_def is_space_def split_pair_def attr_value_def
      strptime_ymd_def is_digit_def digit_val_def)

text \<open>
  C1 as stated fails for a task without a due date: it is written with the text
  \<^verbatim>\<open>None\<close> in the date field (line 222), which the loader's \<^verbatim>\<open>strptime\<close> (line 247)
  refuses. Of three saved tasks, one of each class, the load stops with
  \<^verbatim>\<open>ValueError\<close> at the second and the manager holds one task.
\<close>

theorem zapis_bez_terminu_nie_wraca:
  "fst (zapisz_do_pliku manager_trzech ''zadania.txt'' trzy_klasy_bez_terminu Map.empty) = None \<and>
   wczytaj_z_pliku nowy_manager ''zadania.txt'' []
     (snd (zapisz_do_pliku manager_trzech ''zadania.txt'' trzy_klasy_bez_terminu Map.empty))
     = (Some ValueError, nowy_manager\<lparr>zadania := [0]\<rparr>, [przyklad_zadanie])"
proof -
  have z: "zadania manager_trzech = [0, 1, 2]" by (simp add: manager_trzech_def)
  have s: "zapisz_do_pliku manager_trzech ''zadania.txt'' trzy_klasy_bez_terminu Map.empty =
     (None, [''/home/u/app/zadania.txt'' \<mapsto>
        ''ZadaniePiorytetowe;Przygotuj raport;Raport kwartalny;2025-05-15;kategoria=Finanse;priorytet=Wysoki;wykonane=False\<newline>'' @
        ''Zadanie;A;;None;wykonane=False\<newline>'' @
        ''ZadanieRegularne;Podlej kwiaty;balkon;2025-06-02;pilne=True;powtarzalnosc=co tydzien;wykonane=False\<newline>''])"
    by (simp add: zapisz_do_pliku_def sciezka_trzech z trzy_klasy_bez_terminu_def
        przyklad_linia linia_bez_terminu linia_regularne)
  have p: "sprawdz_sciezke nowy_manager ''zadania.txt'' = Inr ''/home/u/app/zadania.txt''"
    by (simp add: sprawdz_sciezke_def nowy_manager_def ManagerZadan_init_def path_join_def
        commonpath_def path_components_def)
  have n: "zadania nowy_manager = []" by (simp add: nowy_manager_def ManagerZadan_init_def)
  show ?thesis
    unfolding s
    by (simp add: wczytaj_z_pliku_def p wczytaj_linie_przyklad wczytaj_linie_bez_terminu n)
qed

text \<open>A text value \<^verbatim>\<open>True\<close> comes back as the boolean.\<close>

lemma tekst_True_wraca_jako_bool: "attr_value (py_str (PyStr ''True'')) = PyBool True"
  by (simp add: attr_value_def)

end
